theory Spec2Isabelle
  imports Main
begin

section \<open>JavaScript values carried by the relay\<close>

text \<open>
  The relay treats every payload as parsed JSON.  A value is one of the JSON kinds, plus
  JavaScript's \<open>undefined\<close>, which the handlers produce whenever they read a missing
  property.  Numbers are carried opaquely by the relay; the model keeps the integers.
  An object is its list of own properties in enumeration order; a well-formed object has
  pairwise distinct keys.  A parsed value has the ordinary prototype, and a key
  \<open>__proto__\<close> of a parsed object is an own property like any other (\<open>JSON.parse\<close>
  defines it as one); what an assignment to that key does to an object under
  construction is modelled below.  A string is a list of 8-bit characters: the model
  covers the texts whose code units are below \<open>0x100\<close>.
\<close>

datatype json =
    JUndefined
  | JNull
  | JBool bool
  | JNum int
  | JStr string
  | JArr "json list"
  | JObj "(string \<times> json) list"

type_synonym obj = "(string \<times> json) list"

text \<open>Truthiness, as \<open>if (v)\<close>, \<open>a || b\<close> and \<open>a && b\<close> read it.\<close>

fun truthy :: "json \<Rightarrow> bool" where
  "truthy JUndefined = False"
| "truthy JNull = False"
| "truthy (JBool b) = b"
| "truthy (JNum n) = (n \<noteq> 0)"
| "truthy (JStr s) = (s \<noteq> [])"
| "truthy (JArr xs) = True"
| "truthy (JObj kvs) = True"

definition js_or :: "json \<Rightarrow> json \<Rightarrow> json" where
  "js_or a b = (if truthy a then a else b)"

definition js_and :: "json \<Rightarrow> json \<Rightarrow> json" where
  "js_and a b = (if truthy a then b else a)"

text \<open>\<open>o[k]\<close> on an object: the property's value, or \<open>undefined\<close>.\<close>

definition obj_get :: "obj \<Rightarrow> string \<Rightarrow> json" where
  "obj_get kvs k = (case map_of kvs k of Some v \<Rightarrow> v | None \<Rightarrow> JUndefined)"

text \<open>
  \<open>v.k\<close> where \<open>v\<close> is any value that is not \<open>null\<close> or \<open>undefined\<close> (the
  sources guard those with \<open>?.\<close> or \<open>&&\<close>): objects answer with the property, and
  the names the handlers read (\<open>uuid\<close>, \<open>html\<close>, \<open>css\<close>, \<open>error\<close>,
  parameter names) are not properties of strings, numbers, booleans or arrays.
\<close>

fun get_prop :: "json \<Rightarrow> string \<Rightarrow> json" where
  "get_prop (JObj kvs) k = obj_get kvs k"
| "get_prop v k = JUndefined"

text \<open>\<open>o[k] = v\<close>: an existing property keeps its place, a new one is added last.\<close>

fun obj_set :: "obj \<Rightarrow> string \<Rightarrow> json \<Rightarrow> obj" where
  "obj_set [] k v = [(k, v)]"
| "obj_set ((k', v') # kvs) k v =
     (if k' = k then (k, v) # kvs else (k', v') # obj_set kvs k v)"

definition assign_all :: "obj \<Rightarrow> obj \<Rightarrow> obj" where
  "assign_all target src = foldl (\<lambda>acc kv. obj_set acc (fst kv) (snd kv)) target src"

subsection \<open>Numbers and values as text\<close>

definition digit_char :: "nat \<Rightarrow> char" where
  "digit_char d = ''0123456789'' ! d"

fun decimal :: "nat \<Rightarrow> string" where
  "decimal n = (if n < 10 then [digit_char n] else decimal (n div 10) @ [digit_char (n mod 10)])"

declare decimal.simps [simp del]

definition show_int :: "int \<Rightarrow> string" where
  "show_int i = (if i < 0 then CHR ''-'' # decimal (nat (- i)) else decimal (nat i))"

fun join_with :: "string \<Rightarrow> string list \<Rightarrow> string" where
  "join_with sep [] = []"
| "join_with sep [x] = x"
| "join_with sep (x # y # ys) = x @ sep @ join_with sep (y # ys)"

text \<open>\<open>String(v)\<close> and \<open>`${v}`\<close>.\<close>

fun js_String :: "json \<Rightarrow> string" where
  "js_String JUndefined = ''undefined''"
| "js_String JNull = ''null''"
| "js_String (JBool b) = (if b then ''true'' else ''false'')"
| "js_String (JNum n) = show_int n"
| "js_String (JStr s) = s"
| "js_String (JArr xs) =
     join_with '','' (map (\<lambda>x. if x = JNull \<or> x = JUndefined then [] else js_String x) xs)"
| "js_String (JObj kvs) = ''[object Object]''"

text \<open>\<open>toLowerCase\<close> on the letters that matter when a text is compared with
  \<open>'true'\<close> and \<open>'false'\<close>: the ASCII capitals.\<close>

definition lower_char :: "char \<Rightarrow> char" where
  "lower_char c =
     (case map_of (zip ''ABCDEFGHIJKLMNOPQRSTUVWXYZ'' ''abcdefghijklmnopqrstuvwxyz'') c of
        Some l \<Rightarrow> l
      | None \<Rightarrow> c)"

definition toLowerCase :: "string \<Rightarrow> string" where
  "toLowerCase s = map lower_char s"

subsection \<open>Objects built by assignment of a peer's keys\<close>

text \<open>The index properties of an array, as \<open>for...in\<close> and a spread see them.\<close>

fun indexed :: "nat \<Rightarrow> json list \<Rightarrow> obj" where
  "indexed i [] = []"
| "indexed i (x # xs) = (decimal i, x) # indexed (Suc i) xs"

text \<open>
  An object that starts as a literal and receives \<open>o[key] = value\<close> for keys that a
  peer chose: its own properties and its prototype.  \<open>proto\<close> is \<open>None\<close> while the
  prototype is \<open>Object.prototype\<close>; an assignment to the key \<open>__proto__\<close> runs the
  setter of \<open>Object.prototype\<close>, which makes an object, an array or \<open>null\<close> the new
  prototype, ignores any other value, and adds no own property.  The setter is out of
  reach once the prototype is \<open>null\<close> or a parsed object with an own property of that
  name; the assignment then defines an own property.
\<close>

record built =
  own :: obj
  proto :: "json option"

definition setterInReach :: "built \<Rightarrow> bool" where
  "setterInReach b =
     (case proto b of
        None \<Rightarrow> True
      | Some (JObj kvs) \<Rightarrow> ''__proto__'' \<notin> set (map fst kvs)
      | Some (JArr xs) \<Rightarrow> True
      | Some _ \<Rightarrow> False)"

definition assign :: "built \<Rightarrow> string \<Rightarrow> json \<Rightarrow> built" where
  "assign b k v =
     (if k = ''__proto__'' \<and> ''__proto__'' \<notin> set (map fst (own b)) \<and> setterInReach b
      then (case v of
              JObj kvs \<Rightarrow> b\<lparr>proto := Some v\<rparr>
            | JArr xs \<Rightarrow> b\<lparr>proto := Some v\<rparr>
            | JNull \<Rightarrow> b\<lparr>proto := Some v\<rparr>
            | _ \<Rightarrow> b)
      else b\<lparr>own := obj_set (own b) k v\<rparr>)"

text \<open>
  The enumerable properties the prototype contributes (those of \<open>Object.prototype\<close>
  and \<open>Array.prototype\<close> are not enumerable), and the properties of a built object as
  \<open>for (key in o)\<close> with \<open>o[key]\<close> sees them: its own, then the inherited ones that no
  own property shadows.  \<open>o.k\<close> reads the same list (the handler reads \<open>error\<close>).
\<close>

definition inherited :: "built \<Rightarrow> obj" where
  "inherited b =
     (case proto b of
        Some (JObj kvs) \<Rightarrow> kvs
      | Some (JArr xs) \<Rightarrow> indexed 0 xs
      | _ \<Rightarrow> [])"

definition visible :: "built \<Rightarrow> obj" where
  "visible b = own b @ filter (\<lambda>kv. fst kv \<notin> set (map fst (own b))) (inherited b)"

section \<open>Response sanitisation (routes/shared.ts)\<close>

definition sensitive :: "string \<Rightarrow> bool" where
  "sensitive k = (k = ''privateKey'' \<or> k = ''apiKey'' \<or> k = ''password'')"

text \<open>
  \<open>removeSensitiveKeys\<close> copies an object key by key with \<open>newObj[key] = ...\<close>.  For
  the key \<open>__proto__\<close> that assignment replaces the prototype of the copy (or does
  nothing) and defines no property, so the copy has no own property of that name.  The
  copy is given by its own properties, which is what \<open>res.json\<close> writes.
\<close>

primrec removeSensitiveKeys :: "json \<Rightarrow> json" where
  "removeSensitiveKeys JUndefined = JUndefined"
| "removeSensitiveKeys JNull = JNull"
| "removeSensitiveKeys (JBool b) = JBool b"
| "removeSensitiveKeys (JNum n) = JNum n"
| "removeSensitiveKeys (JStr s) = JStr s"
| "removeSensitiveKeys (JArr xs) = JArr (map removeSensitiveKeys xs)"
| "removeSensitiveKeys (JObj kvs) =
     JObj (filter (\<lambda>kv. \<not> sensitive (fst kv) \<and> fst kv \<noteq> ''__proto__'')
             (map (map_prod id removeSensitiveKeys) kvs))"

definition sanitizeResponse :: "json \<Rightarrow> json" where
  "sanitizeResponse response =
     (if response = JNull \<or> response = JUndefined then response
      else if \<not> (case response of JArr xs \<Rightarrow> True | JObj kvs \<Rightarrow> True | _ \<Rightarrow> False) then response
      else removeSensitiveKeys response)"

section \<open>HTTP responses, waiters and the relay's state\<close>

text \<open>
  An Express response object is named by a handle; \<open>responses s r\<close> holds what has been
  written on handle \<open>r\<close>, and \<open>res.headersSent\<close> is \<open>responses s r \<noteq> None\<close>.
  A body is what \<open>res.json\<close>, \<open>res.send\<close> or \<open>res.end\<close> was given.
\<close>

datatype body = JsonBody json | TextBody string | BytesBody "nat list"

record http_response =
  statusCode :: int
  headers :: "(string \<times> json) list"
  content :: body

text \<open>
  A connected peer, as the handlers use it: \<open>client.getId()\<close> and the boolean that
  \<open>client.send(message)\<close> returns.
\<close>

record client =
  getId :: string
  sendOk :: bool

text \<open>
  \<open>PendingRequest\<close> of routes/shared.ts.  Field \<open>ptype\<close> is the source's \<open>type\<close>,
  \<open>query_p\<close> and \<open>filter_p\<close> are its \<open>query\<close> and \<open>filter\<close>; an absent optional
  field is \<open>None\<close>.
\<close>

record pending_request =
  res :: nat
  ptype :: string
  clientId :: json
  uuid :: "string option"
  path :: "string option"
  query_p :: "string option"
  filter_p :: "string option"
  timestamp :: int
  format :: "string option"
  initialScale :: "int option"
  activeTab :: "int option"
  darkMode :: "bool option"

text \<open>What \<open>buildPendingRequest\<close> may add to a waiter (every field but
  \<open>res\<close>, \<open>timestamp\<close>, \<open>type\<close> and \<open>clientId\<close>).\<close>

record pending_extras =
  x_uuid :: "string option"
  x_path :: "string option"
  x_query :: "string option"
  x_filter :: "string option"
  x_format :: "string option"
  x_initialScale :: "int option"
  x_activeTab :: "int option"
  x_darkMode :: "bool option"

definition no_extras :: pending_extras where
  "no_extras = \<lparr>x_uuid = None, x_path = None, x_query = None, x_filter = None,
     x_format = None, x_initialScale = None, x_activeTab = None, x_darkMode = None\<rparr>"

text \<open>
  The state of one relay process: the \<open>pendingRequests\<close> map, the responses written so
  far, the callbacks registered with \<open>setTimeout\<close> (due time, requestId, response handle),
  the messages handed to \<open>client.send\<close> (with the peer's id), and the connected peers.
\<close>

record relay_state =
  pendingRequests :: "string \<rightharpoonup> pending_request"
  responses :: "nat \<rightharpoonup> http_response"
  timers :: "(int \<times> string \<times> nat) list"
  outbox :: "(string \<times> json) list"
  clients :: "string \<rightharpoonup> client"

text \<open>
  Platform and collaborator functions the handlers call and the repository does not
  define: \<open>parseFloat\<close> (\<open>None\<close> is NaN), \<open>JSON.parse\<close> (\<open>None\<close> is a thrown
  SyntaxError), \<open>Buffer.from(_, 'base64')\<close>, and the HTML document of a sheet (jsdom's tab
  activation followed by \<open>returnHtmlTemplate\<close>; \<open>None\<close> is a thrown error).
\<close>

record env =
  parseFloat :: "json \<Rightarrow> int option"
  jsonParse :: "string \<Rightarrow> json option"
  base64Decode :: "string \<Rightarrow> nat list"
  sheetDocument :: "pending_request \<Rightarrow> client \<Rightarrow> json \<Rightarrow> string option"

subsection \<open>safeResponse\<close>

definition safeResponse :: "nat \<Rightarrow> int \<Rightarrow> json \<Rightarrow> relay_state \<Rightarrow> relay_state" where
  "safeResponse r code data s =
     (if responses s r \<noteq> None then s
      else s\<lparr>responses := (responses s)(r \<mapsto>
             \<lparr>statusCode = code, headers = [], content = JsonBody (sanitizeResponse data)\<rparr>)\<rparr>)"

section \<open>The route handler factory (routes/route-helpers.ts)\<close>

datatype source = Body | Query | Params

datatype param_type = TString | TNumber | TBoolean | TArray | TObject

text \<open>\<open>ParamDef\<close>: \<open>sources\<close> is \<open>from\<close> as the handler normalises it (a single
  source is the one-element list), \<open>expected\<close> is \<open>type\<close>.  The names are the
  literals of the route definitions, ordinary property names.\<close>

record param_def =
  name :: string
  sources :: "source list"
  expected :: "param_type option"

record request =
  body :: json
  query :: json
  params :: json

text \<open>
  \<open>ApiRouteConfig\<close>; \<open>rtype\<close> is its \<open>type\<close>.  The optional callbacks are \<open>None\<close>
  when the route gives none; \<open>buildPayload\<close> and \<open>buildPendingRequest\<close> run inside the
  handler's \<open>try\<close>, and their \<open>None\<close> result is a thrown error.
\<close>

record api_route_config =
  rtype :: string
  requiredParams :: "param_def list"
  optionalParams :: "param_def list"
  timeout :: "int option"
  validateParams :: "(obj \<Rightarrow> request \<Rightarrow> json) option"
  buildPayload :: "(obj \<Rightarrow> request \<Rightarrow> obj option) option"
  buildPendingRequest :: "(obj \<Rightarrow> pending_extras option) option"

definition req_source :: "request \<Rightarrow> source \<Rightarrow> json" where
  "req_source req src = (case src of Body \<Rightarrow> body req | Query \<Rightarrow> query req | Params \<Rightarrow> params req)"

text \<open>The inner loop over \<open>sources\<close>: the first value that is not \<open>undefined\<close>.\<close>

fun firstDefined :: "json list \<Rightarrow> json" where
  "firstDefined [] = JUndefined"
| "firstDefined (v # vs) = (if v \<noteq> JUndefined then v else firstDefined vs)"

definition extractParams :: "param_def list \<Rightarrow> request \<Rightarrow> obj" where
  "extractParams defs req =
     foldl (\<lambda>ps p. obj_set ps (name p)
              (firstDefined (map (\<lambda>src. get_prop (req_source req src) (name p)) (sources p))))
       [] defs"

definition quoted :: "string \<Rightarrow> string" where
  "quoted n = CHR 0x27 # n @ [CHR 0x27]"

text \<open>The \<open>switch (p.type)\<close>: the coerced value, or the validation error.\<close>

definition coerce :: "env \<Rightarrow> param_type \<Rightarrow> string \<Rightarrow> json \<Rightarrow> string + json" where
  "coerce e t n v =
     (case t of
        TNumber \<Rightarrow>
          (case v of
             JNum x \<Rightarrow> Inr v
           | _ \<Rightarrow> (case parseFloat e v of
                     None \<Rightarrow> Inl (quoted n @ '' must be a valid number.'')
                   | Some x \<Rightarrow> Inr (JNum x)))
      | TBoolean \<Rightarrow>
          (case v of
             JBool b \<Rightarrow> Inr v
           | _ \<Rightarrow> if toLowerCase (js_String v) = ''true'' then Inr (JBool True)
                  else if toLowerCase (js_String v) = ''false'' then Inr (JBool False)
                  else Inl (quoted n @ '' must be a valid boolean.''))
      | TArray \<Rightarrow>
          (case v of
             JArr xs \<Rightarrow> Inr v
           | JStr str \<Rightarrow>
               (case jsonParse e str of
                  None \<Rightarrow> Inl (quoted n @ '' must be a valid array.'')
                | Some (JArr ys) \<Rightarrow> Inr (JArr ys)
                | Some _ \<Rightarrow> Inl (quoted n @ '' must be an array.''))
           | _ \<Rightarrow> Inl (quoted n @ '' must be an array.''))
      | TString \<Rightarrow>
          (case v of JStr str \<Rightarrow> Inr v | _ \<Rightarrow> Inl (quoted n @ '' must be a string.''))
      | TObject \<Rightarrow>
          (case v of JObj kvs \<Rightarrow> Inr v | _ \<Rightarrow> Inl (quoted n @ '' must be an object.'')))"

fun coerceParams :: "env \<Rightarrow> param_def list \<Rightarrow> obj \<Rightarrow> string + obj" where
  "coerceParams e [] ps = Inr ps"
| "coerceParams e (p # defs) ps =
     (let v = obj_get ps (name p) in
      if v = JUndefined \<or> v = JNull then coerceParams e defs ps
      else case expected p of
             None \<Rightarrow> coerceParams e defs ps
           | Some t \<Rightarrow>
               (case coerce e t (name p) v of
                  Inl err \<Rightarrow> Inl err
                | Inr v' \<Rightarrow> coerceParams e defs (obj_set ps (name p) v')))"

text \<open>The first required parameter that is \<open>undefined\<close> or \<open>null\<close>.\<close>

fun firstMissing :: "param_def list \<Rightarrow> obj \<Rightarrow> string option" where
  "firstMissing [] ps = None"
| "firstMissing (p # defs) ps =
     (if obj_get ps (name p) = JUndefined \<or> obj_get ps (name p) = JNull then Some (name p)
      else firstMissing defs ps)"

text \<open>
  \<open>ClientManager.getClient\<close> is not part of these sources.
  Modelled from the spec: the Local Client Table maps a client ID (an opaque string) to
  the peer session that hosts it; any other value finds no client.
\<close>

definition getClient :: "relay_state \<Rightarrow> json \<Rightarrow> client option" where
  "getClient s cid = (case cid of JStr c \<Rightarrow> clients s c | _ \<Rightarrow> None)"

definition requestIdOf :: "string \<Rightarrow> int \<Rightarrow> string" where
  "requestIdOf t now = t @ ''_'' @ show_int now"

definition timeoutDuration :: "api_route_config \<Rightarrow> int" where
  "timeoutDuration config = (case timeout config of None \<Rightarrow> 10000 | Some d \<Rightarrow> if d = 0 then 10000 else d)"

text \<open>\<open>{...v}\<close>: the own enumerable properties of a value, as an object.\<close>

definition spread :: "json \<Rightarrow> obj" where
  "spread v = (case v of
                 JObj kvs \<Rightarrow> kvs
               | JArr xs \<Rightarrow> indexed 0 xs
               | JStr str \<Rightarrow> indexed 0 (map (\<lambda>c. JStr [c]) str)
               | _ \<Rightarrow> [])"

text \<open>The message handed to \<open>client.send\<close>:
  \<open>{type, requestId, ...payload, data: {...payload.data}}\<close>.\<close>

definition relayMessage :: "string \<Rightarrow> string \<Rightarrow> obj \<Rightarrow> obj" where
  "relayMessage t requestId payload =
     obj_set (assign_all [(''type'', JStr t), (''requestId'', JStr requestId)] payload)
       ''data'' (JObj (spread (obj_get payload ''data'')))"

definition newPending :: "nat \<Rightarrow> string \<Rightarrow> json \<Rightarrow> int \<Rightarrow> pending_extras \<Rightarrow> pending_request" where
  "newPending r t cid stamp x =
     \<lparr>res = r, ptype = t, clientId = cid, uuid = x_uuid x, path = x_path x, query_p = x_query x,
      filter_p = x_filter x, timestamp = stamp, format = x_format x,
      initialScale = x_initialScale x, activeTab = x_activeTab x, darkMode = x_darkMode x\<rparr>"

text \<open>
  The handler's \<open>try\<close> block, entered once the client is found.  It reads the clock
  three times: \<open>now\<close> is what \<open>Date.now()\<close> returns for the requestId, \<open>stamp\<close> what
  it returns for the waiter's \<open>timestamp\<close>, and \<open>armed\<close> is the time from which the
  timer counts when \<open>setTimeout\<close> is called, after \<open>buildPayload\<close> and
  \<open>client.send\<close>.
\<close>

definition relayRequest ::
  "api_route_config \<Rightarrow> obj \<Rightarrow> request \<Rightarrow> nat \<Rightarrow> int \<Rightarrow> int \<Rightarrow> int \<Rightarrow> client \<Rightarrow> json \<Rightarrow> relay_state
     \<Rightarrow> relay_state" where
  "relayRequest config ps req r now stamp armed cl cid s =
     (let requestId = requestIdOf (rtype config) now;
          internal = JObj [(''error'', JStr (''Internal server error during '' @ rtype config @ '' request''))]
      in case (case buildPendingRequest config of None \<Rightarrow> Some no_extras | Some f \<Rightarrow> f ps) of
           None \<Rightarrow> safeResponse r 500 internal s
         | Some x \<Rightarrow>
             (let s1 = s\<lparr>pendingRequests :=
                          (pendingRequests s)(requestId \<mapsto> newPending r (rtype config) cid stamp x)\<rparr>
              in case (case buildPayload config of None \<Rightarrow> Some ps | Some f \<Rightarrow> f ps req) of
                   None \<Rightarrow> safeResponse r 500 internal s1
                 | Some payloadSource \<Rightarrow>
                     (let payload = filter (\<lambda>kv. fst kv \<noteq> ''clientId'' \<and> fst kv \<noteq> ''type'') payloadSource
                      in if \<not> sendOk cl
                         then safeResponse r 500
                                (JObj [(''error'', JStr ''Failed to send request to Foundry client'')])
                                (s1\<lparr>pendingRequests := (pendingRequests s1)(requestId := None)\<rparr>)
                         else s1\<lparr>outbox := outbox s1 @
                                     [(getId cl, JObj (relayMessage (rtype config) requestId payload))],
                                 timers := timers s1 @ [(armed + timeoutDuration config, requestId, r)]\<rparr>)))"

text \<open>\<open>(await config.validateParams?.(params, req)) || null\<close>.\<close>

definition validationResult :: "api_route_config \<Rightarrow> obj \<Rightarrow> request \<Rightarrow> json" where
  "validationResult config ps req =
     (case validateParams config of None \<Rightarrow> JNull | Some f \<Rightarrow> js_or (f ps req) JNull)"

definition createApiRoute ::
  "env \<Rightarrow> api_route_config \<Rightarrow> request \<Rightarrow> nat \<Rightarrow> int \<Rightarrow> int \<Rightarrow> int \<Rightarrow> relay_state \<Rightarrow> relay_state" where
  "createApiRoute e config req r now stamp armed s =
     (let allParamDefs = requiredParams config @ optionalParams config
      in case coerceParams e allParamDefs (extractParams allParamDefs req) of
           Inl err \<Rightarrow> safeResponse r 400 (JObj [(''error'', JStr err)]) s
         | Inr ps \<Rightarrow>
             (if truthy (validationResult config ps req)
              then safeResponse r 400 (validationResult config ps req) s
              else case firstMissing (requiredParams config) ps of
                     Some n \<Rightarrow>
                       safeResponse r 400 (JObj [(''error'', JStr (quoted n @ '' is required''))]) s
                   | None \<Rightarrow>
                       (case getClient s (obj_get ps ''clientId'') of
                          None \<Rightarrow> safeResponse r 404 (JObj [(''error'', JStr ''Invalid client ID'')]) s
                        | Some cl \<Rightarrow>
                            relayRequest config ps req r now stamp armed cl (obj_get ps ''clientId'') s)))"

text \<open>The callback given to \<open>setTimeout\<close>.\<close>

definition onTimeout :: "string \<Rightarrow> nat \<Rightarrow> relay_state \<Rightarrow> relay_state" where
  "onTimeout requestId r s =
     (if pendingRequests s requestId \<noteq> None
      then safeResponse r 408 (JObj [(''error'', JStr ''Request timed out'')])
             (s\<lparr>pendingRequests := (pendingRequests s)(requestId := None)\<rparr>)
      else s)"

section \<open>Routing peer messages back to waiters (routes/api.ts)\<close>

definition PENDING_REQUEST_TYPES :: "string list" where
  "PENDING_REQUEST_TYPES =
     [''search'', ''entity'', ''structure'', ''contents'', ''create'', ''update'', ''delete'',
      ''rolls'', ''last-roll'', ''roll'', ''get-sheet'', ''macro-execute'', ''macros'',
      ''encounters'', ''start-encounter'', ''next-turn'', ''next-round'', ''last-turn'', ''last-round'',
      ''end-encounter'', ''add-to-encounter'', ''remove-from-encounter'', ''kill'', ''decrease'',
      ''increase'', ''give'', ''remove'', ''execute-js'',
      ''select'', ''selected'', ''file-system'', ''upload-file'', ''download-file'',
      ''get-actor-details'', ''modify-item-charges'', ''use-ability'', ''use-feature'', ''use-spell'',
      ''use-item'', ''modify-experience'', ''add-item'', ''remove-item'',
      ''get-folder'', ''create-folder'', ''delete-folder'', ''chat-messages'', ''chat'']"

definition REQUEST_TYPES_WITH_SPECIAL_RESPONSE_HANDLERS :: "string list" where
  "REQUEST_TYPES_WITH_SPECIAL_RESPONSE_HANDLERS = [''actor-sheet'', ''download-file'']"

subsection \<open>The handler registered for every \<open>${type}-result\<close>\<close>

text \<open>
  The \<open>response\<close> object: the literal \<open>{requestId, clientId}\<close>, then
  \<open>response[key] = value\<close> for every entry of the message but \<open>requestId\<close>.
\<close>

definition resultResponse :: "pending_request \<Rightarrow> client \<Rightarrow> string \<Rightarrow> json \<Rightarrow> built" where
  "resultResponse pending cl rid data =
     foldl (\<lambda>b kv. assign b (fst kv) (snd kv))
       \<lparr>own = [(''requestId'', JStr rid), (''clientId'', js_or (clientId pending) (JStr (getId cl)))],
        proto = None\<rparr>
       (filter (\<lambda>kv. fst kv \<noteq> ''requestId'') (spread data))"

text \<open>
  \<open>response.error\<close> is read through the prototype chain, and \<open>safeResponse\<close> copies
  \<open>response\<close> with \<open>for (key in response)\<close> and \<open>response[key]\<close> before anything is
  written: both see the properties \<open>visible response\<close>.
\<close>

definition onResult :: "client \<Rightarrow> json \<Rightarrow> relay_state \<Rightarrow> relay_state" where
  "onResult cl data s =
     (case get_prop data ''requestId'' of
        JStr rid \<Rightarrow>
          (if rid \<noteq> [] then
             (case pendingRequests s rid of
                None \<Rightarrow> s
              | Some pending \<Rightarrow>
                  (let response = resultResponse pending cl rid data;
                       s1 = (if truthy (obj_get (visible response) ''error'')
                             then safeResponse (res pending) 400 (JObj (visible response)) s
                             else safeResponse (res pending) 200 (JObj (visible response)) s)
                   in s1\<lparr>pendingRequests := (pendingRequests s1)(rid := None)\<rparr>))
           else s)
      | _ \<Rightarrow> s)"

subsection \<open>The handler of \<open>get-sheet-response\<close>\<close>

text \<open>\<open>pending.uuid === responseUuid\<close> for a waiter's \<open>uuid\<close> (a string or
  \<open>undefined\<close>).\<close>

definition uuidMatches :: "string option \<Rightarrow> json \<Rightarrow> bool" where
  "uuidMatches u v = (case v of JStr str \<Rightarrow> u = Some str | JUndefined \<Rightarrow> u = None | _ \<Rightarrow> False)"

definition opt_str :: "string option \<Rightarrow> json" where
  "opt_str u = (case u of None \<Rightarrow> JUndefined | Some str \<Rightarrow> JStr str)"

definition onSheetResponse :: "env \<Rightarrow> client \<Rightarrow> json \<Rightarrow> relay_state \<Rightarrow> relay_state" where
  "onSheetResponse e cl data s =
     (let inner = get_prop data ''data'';
          responseUuid = js_or (get_prop data ''uuid'') (js_and inner (get_prop inner ''uuid''))
      in if truthy inner \<and> truthy (get_prop inner ''html'')
              \<and> (case get_prop inner ''html'' of JStr h \<Rightarrow> False | _ \<Rightarrow> True)
         then s
         else
           (case get_prop data ''requestId'' of
              JStr rid \<Rightarrow>
                (if rid \<noteq> [] then
                   (case pendingRequests s rid of
                      None \<Rightarrow> s
                    | Some pending \<Rightarrow>
                        if ptype pending = ''get-sheet'' \<and> uuidMatches (uuid pending) responseUuid then
                          (if truthy (get_prop data ''error'') \<or> truthy (js_and inner (get_prop inner ''error''))
                           then
                             (safeResponse (res pending) 404
                                (JObj [(''requestId'', JStr rid), (''clientId'', clientId pending),
                                       (''uuid'', opt_str (uuid pending)),
                                       (''error'', js_or (js_or (get_prop data ''error'')
                                                     (js_and inner (get_prop inner ''error'')))
                                                     (JStr ''Unknown error''))]) s)
                               \<lparr>pendingRequests := (pendingRequests s)(rid := None)\<rparr>
                           else if format pending = Some ''json'' then
                             (safeResponse (res pending) 200
                                (JObj [(''requestId'', JStr rid), (''clientId'', clientId pending),
                                       (''uuid'', opt_str (uuid pending)),
                                       (''html'', js_or (js_or (get_prop data ''html'')
                                                    (js_and inner (get_prop inner ''html''))) (JStr [])),
                                       (''css'', js_or (js_or (get_prop data ''css'')
                                                   (js_and inner (get_prop inner ''css''))) (JStr []))]) s)
                               \<lparr>pendingRequests := (pendingRequests s)(rid := None)\<rparr>
                           else
                             (case sheetDocument e pending cl data of
                                None \<Rightarrow> s
                              | Some fullHtml \<Rightarrow>
                                  if responses s (res pending) \<noteq> None then s
                                  else s\<lparr>responses := (responses s)(res pending \<mapsto>
                                            \<lparr>statusCode = 200, headers = [], content = TextBody fullHtml\<rparr>),
                                         pendingRequests := (pendingRequests s)(rid := None)\<rparr>))
                        else s)
                 else s)
            | _ \<Rightarrow> s))"

subsection \<open>The handler of \<open>download-file-result\<close>\<close>

fun splitOn :: "char \<Rightarrow> string \<Rightarrow> string list" where
  "splitOn c [] = [[]]"
| "splitOn c (x # xs) =
     (if x = c then [] # splitOn c xs
      else case splitOn c xs of w # ws \<Rightarrow> (x # w) # ws | [] \<Rightarrow> [[x]])"

text \<open>\<open>data.fileData.split(',')[1]\<close>; \<open>None\<close> when the expression or the
  \<open>Buffer.from\<close> that receives it throws (no string, or no comma in it).\<close>

definition base64Part :: "json \<Rightarrow> string option" where
  "base64Part fileData =
     (case fileData of
        JStr str \<Rightarrow> (case splitOn CHR '','' str of a # b # rest \<Rightarrow> Some b | _ \<Rightarrow> None)
      | _ \<Rightarrow> None)"

text \<open>
  \<open>res.setHeader(name, value)\<close> throws when the text of the value holds a character
  that Node refuses in a header: anything but the tab and the characters \<open>0x20\<close> to
  \<open>0x7E\<close> and \<open>0x80\<close> to \<open>0xFF\<close>.  Among 8-bit characters those are the control
  characters other than the tab, and \<open>0x7F\<close>.
\<close>

definition refusedChars :: "char list" where
  "refusedChars =
     [CHR 0x00, CHR 0x01, CHR 0x02, CHR 0x03, CHR 0x04, CHR 0x05, CHR 0x06, CHR 0x07, CHR 0x08,
      CHR 0x0A, CHR 0x0B, CHR 0x0C, CHR 0x0D, CHR 0x0E, CHR 0x0F,
      CHR 0x10, CHR 0x11, CHR 0x12, CHR 0x13, CHR 0x14, CHR 0x15, CHR 0x16, CHR 0x17,
      CHR 0x18, CHR 0x19, CHR 0x1A, CHR 0x1B, CHR 0x1C, CHR 0x1D, CHR 0x1E, CHR 0x1F, CHR 0x7F]"

definition headerChar :: "char \<Rightarrow> bool" where
  "headerChar c = (c \<notin> set refusedChars)"

definition validHeaderValue :: "json \<Rightarrow> bool" where
  "validHeaderValue v = list_all headerChar (js_String v)"

text \<open>
  The handler deletes the waiter first and has no \<open>try\<close>: when \<open>split\<close>,
  \<open>Buffer.from\<close> or \<open>setHeader\<close> throws, nothing is written.
\<close>

definition onDownloadFileResult :: "env \<Rightarrow> client \<Rightarrow> json \<Rightarrow> relay_state \<Rightarrow> relay_state" where
  "onDownloadFileResult e cl data s =
     (case get_prop data ''requestId'' of
        JStr rid \<Rightarrow>
          (if rid \<noteq> [] then
             (case pendingRequests s rid of
                None \<Rightarrow> s
              | Some request \<Rightarrow>
                  (let s1 = s\<lparr>pendingRequests := (pendingRequests s)(rid := None)\<rparr> in
                   if truthy (get_prop data ''error'') then
                     safeResponse (res request) 500
                       (JObj [(''clientId'', JStr (getId cl)), (''requestId'', JStr rid),
                              (''error'', get_prop data ''error'')]) s1
                   else
                     (let fmt = (case format request of
                                   None \<Rightarrow> ''binary''
                                 | Some f \<Rightarrow> if f = [] then ''binary'' else f)
                      in case base64Part (get_prop data ''fileData'') of
                           None \<Rightarrow> s1
                         | Some base64Data \<Rightarrow>
                             (let buffer = base64Decode e base64Data in
                              if fmt = ''binary'' \<or> fmt = ''raw'' then
                                (if responses s1 (res request) \<noteq> None then s1
                                 else if \<not> validHeaderValue
                                            (js_or (get_prop data ''mimeType'') (JStr ''application/octet-stream''))
                                         \<or> \<not> validHeaderValue
                                              (JStr (''attachment; filename='' @ [CHR 0x22]
                                                     @ js_String (get_prop data ''filename'') @ [CHR 0x22]))
                                 then s1
                                 else s1\<lparr>responses := (responses s1)(res request \<mapsto>
                                        \<lparr>statusCode = 200,
                                         headers =
                                           [(''Content-Type'',
                                               js_or (get_prop data ''mimeType'') (JStr ''application/octet-stream'')),
                                            (''Content-Disposition'',
                                               JStr (''attachment; filename='' @ [CHR 0x22]
                                                     @ js_String (get_prop data ''filename'') @ [CHR 0x22])),
                                            (''Content-Length'', JNum (int (length buffer)))],
                                         content = BytesBody buffer\<rparr>)\<rparr>)
                              else
                                safeResponse (res request) 200
                                  (JObj [(''clientId'', JStr (getId cl)), (''requestId'', JStr rid),
                                         (''success'', JBool True),
                                         (''path'', get_prop data ''path''),
                                         (''filename'', get_prop data ''filename''),
                                         (''mimeType'', get_prop data ''mimeType''),
                                         (''fileData'', get_prop data ''fileData''),
                                         (''size'', JNum (int (length buffer)))]) s1))))
           else s)
      | _ \<Rightarrow> s)"

subsection \<open>Registration and dispatch\<close>

datatype handler = ResultHandler string | SheetResponseHandler | DownloadFileResultHandler

text \<open>\<open>setupMessageHandlers\<close>: the message types in registration order.\<close>

definition messageHandlers :: "(string \<times> handler) list" where
  "messageHandlers =
     map (\<lambda>t. (t @ ''-result'', ResultHandler t))
       (filter (\<lambda>t. t \<notin> set REQUEST_TYPES_WITH_SPECIAL_RESPONSE_HANDLERS) PENDING_REQUEST_TYPES)
     @ [(''get-sheet-response'', SheetResponseHandler),
        (''download-file-result'', DownloadFileResultHandler)]"

definition runHandler :: "env \<Rightarrow> handler \<Rightarrow> client \<Rightarrow> json \<Rightarrow> relay_state \<Rightarrow> relay_state" where
  "runHandler e h cl data s =
     (case h of
        ResultHandler t \<Rightarrow> onResult cl data s
      | SheetResponseHandler \<Rightarrow> onSheetResponse e cl data s
      | DownloadFileResultHandler \<Rightarrow> onDownloadFileResult e cl data s)"

text \<open>
  \<open>ClientManager.onMessageType\<close> and the dispatch of an inbound frame are not part of
  these sources.
  Modelled from the spec: a parsed message is routed by its \<open>type\<close> to the handler
  registered for that type; a message of any other type reaches none of them.
\<close>

definition onMessage :: "env \<Rightarrow> client \<Rightarrow> json \<Rightarrow> relay_state \<Rightarrow> relay_state" where
  "onMessage e cl data s =
     (case get_prop data ''type'' of
        JStr t \<Rightarrow> (case map_of messageHandlers t of
                     None \<Rightarrow> s
                   | Some h \<Rightarrow> runHandler e h cl data s)
      | _ \<Rightarrow> s)"

subsection \<open>The periodic clean-up\<close>

text \<open>The body of the \<open>setInterval(..., 10000)\<close> callback, run at time \<open>now\<close>.\<close>

definition SWEEP_INTERVAL :: int where
  "SWEEP_INTERVAL = 10000"

definition sweep :: "int \<Rightarrow> relay_state \<Rightarrow> relay_state" where
  "sweep now s =
     s\<lparr>pendingRequests :=
          (\<lambda>requestId. case pendingRequests s requestId of
                          None \<Rightarrow> None
                        | Some request \<Rightarrow> if now - timestamp request > 30000 then None else Some request)\<rparr>"

subsection \<open>The endpoints that answer on their own (routes/api.ts, index.ts)\<close>

text \<open>
  The remaining handlers of these sources that write a JSON body.  What they take from
  code outside these sources is part of the request here:
  \<^item> \<open>GET /api/status\<close>;
  \<^item> \<open>GET /clients\<close>, with the list of client details it gathered (\<open>None\<close> when
    gathering threw);
  \<^item> \<open>GET /api/docs\<close>, with the parsed \<open>api-docs.json\<close> (\<open>None\<close> when no file was
    found or it did not parse) and \<open>req.protocol\<close> and \<open>req.get('host')\<close>;
  \<^item> \<open>GET /api/health\<close>, with the result of \<open>getSystemHealth()\<close> (\<open>None\<close> when it
    threw), the clock reading and the instance id from the environment;
  \<^item> \<open>GET /docs*\<close> when the documentation build is missing, and when setting it up
    failed.

  The other handlers (\<open>res.sendFile\<close>, the asset proxy) send files and streams.
\<close>

datatype endpoint =
    ApiStatus
  | Clients "json list option"
  | ApiDocs "json option" string json
  | ApiHealth "json option" int string
  | DocsMissing
  | DocsFailed

definition VERSION :: string where
  "VERSION = ''2.0.16''"

text \<open>\<open>res.status(code).json(data)\<close> on a response that is not yet sent (Express
  throws on one that is).  The body is written as it is given.\<close>

definition jsonResponse :: "nat \<Rightarrow> int \<Rightarrow> json \<Rightarrow> relay_state \<Rightarrow> relay_state" where
  "jsonResponse r code data s =
     (if responses s r \<noteq> None then s
      else s\<lparr>responses := (responses s)(r \<mapsto>
             \<lparr>statusCode = code, headers = [], content = JsonBody data\<rparr>)\<rparr>)"

definition baseUrl :: "string \<Rightarrow> json \<Rightarrow> json" where
  "baseUrl protocol host = JStr (protocol @ ''://'' @ js_String host)"

text \<open>
  \<open>apiDocs.baseUrl = ...; res.json(apiDocs)\<close>.  The assignment adds the property to an
  object; on an array it adds a property that \<open>res.json\<close> does not write; on \<open>null\<close>
  and on a primitive value it throws (module code is strict), which the handler catches.
\<close>

definition docsBody :: "json \<Rightarrow> string \<Rightarrow> json \<Rightarrow> json option" where
  "docsBody apiDocs protocol host =
     (case apiDocs of
        JObj kvs \<Rightarrow> Some (JObj (obj_set kvs ''baseUrl'' (baseUrl protocol host)))
      | JArr xs \<Rightarrow> Some (JArr xs)
      | _ \<Rightarrow> None)"

definition otherEndpoint :: "endpoint \<Rightarrow> nat \<Rightarrow> relay_state \<Rightarrow> relay_state" where
  "otherEndpoint ep r s =
     (case ep of
        ApiStatus \<Rightarrow>
          jsonResponse r 200
            (JObj [(''status'', JStr ''ok''), (''version'', JStr VERSION), (''websocket'', JStr ''/relay'')]) s
      | Clients found \<Rightarrow>
          (case found of
             Some allClients \<Rightarrow>
               safeResponse r 200
                 (JObj [(''total'', JNum (int (length allClients))), (''clients'', JArr allClients)]) s
           | None \<Rightarrow> safeResponse r 500 (JObj [(''error'', JStr ''Failed to retrieve clients'')]) s)
      | ApiDocs parsed protocol host \<Rightarrow>
          (case (case parsed of None \<Rightarrow> None | Some apiDocs \<Rightarrow> docsBody apiDocs protocol host) of
             Some b \<Rightarrow> jsonResponse r 200 b s
           | None \<Rightarrow>
               jsonResponse r 500
                 (JObj [(''error'', JStr ''API documentation is currently unavailable.''),
                        (''message'', JStr (''The documentation file could not be loaded. ''
                           @ ''Please check if the server was built correctly.'')),
                        (''baseUrl'', baseUrl protocol host)]) s)
      | ApiHealth health now instanceId \<Rightarrow>
          (case health of
             Some h \<Rightarrow> jsonResponse r 200 h s
           | None \<Rightarrow>
               jsonResponse r 200
                 (JObj [(''healthy'', JBool True), (''status'', JStr ''starting''),
                        (''timestamp'', JNum now), (''instanceId'', JStr instanceId),
                        (''message'', JStr ''Service initializing'')]) s)
      | DocsMissing \<Rightarrow> jsonResponse r 404 (JObj [(''error'', JStr ''Documentation not available'')]) s
      | DocsFailed \<Rightarrow> jsonResponse r 500 (JObj [(''error'', JStr ''Documentation setup failed'')]) s)"

subsection \<open>Events of one relay process\<close>

text \<open>
  What can happen to the relay: an HTTP request reaches a relay route handler (with its
  fresh response handle and the three clock readings), an HTTP request reaches one of the
  other JSON endpoints, a peer message arrives, a registered timeout callback fires, or
  the clean-up interval fires (with the clock reading).  A handler runs as one step: what
  other handlers do while it awaits is placed before or after it.
\<close>

datatype event =
    HttpRequest api_route_config request nat int int int
  | OtherRequest endpoint nat
  | PeerMessage client json
  | TimerFires int string nat
  | Sweep int

definition step :: "env \<Rightarrow> event \<Rightarrow> relay_state \<Rightarrow> relay_state" where
  "step e ev s =
     (case ev of
        HttpRequest config req r now stamp armed \<Rightarrow> createApiRoute e config req r now stamp armed s
      | OtherRequest ep r \<Rightarrow> otherEndpoint ep r s
      | PeerMessage cl data \<Rightarrow> onMessage e cl data s
      | TimerFires due requestId r \<Rightarrow>
          (if (due, requestId, r) \<in> set (timers s)
           then onTimeout requestId r (s\<lparr>timers := remove1 (due, requestId, r) (timers s)\<rparr>)
           else s)
      | Sweep now \<Rightarrow> sweep now s)"

definition run :: "env \<Rightarrow> event list \<Rightarrow> relay_state \<Rightarrow> relay_state" where
  "run e evs s = foldl (\<lambda>st ev. step e ev st) s evs"

section \<open>The peer-side module (scripts/module.js)\<close>

text \<open>
  The fields of a Foundry chat message that the two \<open>createChatMessage\<close> hooks read.
  \<open>msg_id\<close> is \<open>message.id\<close> and \<open>msg_type\<close> is \<open>message.type\<close>; \<open>rolls\<close> is
  \<open>None\<close> when the message has no \<open>rolls\<close> array.
\<close>

record die =
  faces :: json
  results :: "(json \<times> json) list"

record roll =
  total :: json
  formula :: json
  isCritical :: json
  isFumble :: json
  dice :: "die list option"


























section \<open>The routes of routes/api/roll.ts and routes/api/chat.ts\<close>

definition rollsRoute :: api_route_config where
  "rollsRoute =
     \<lparr>rtype = ''rolls'',
      requiredParams = [\<lparr>name = ''clientId'', sources = [Query], expected = Some TString\<rparr>],
      optionalParams =
        [\<lparr>name = ''limit'', sources = [Query], expected = Some TNumber\<rparr>,
         \<lparr>name = ''clear'', sources = [Query], expected = Some TBoolean\<rparr>,
         \<lparr>name = ''refresh'', sources = [Query], expected = Some TBoolean\<rparr>],
      timeout = None,
      validateParams = None,
      buildPayload = Some (\<lambda>ps req. Some
        ((if truthy (obj_get ps ''limit'') then [(''limit'', obj_get ps ''limit'')] else [])
         @ (if truthy (obj_get ps ''clear'') \<or> truthy (obj_get ps ''refresh'')
            then [(''clear'', JBool True), (''refresh'', JBool True)] else []))),
      buildPendingRequest = None\<rparr>"

definition lastRollRoute :: api_route_config where
  "lastRollRoute =
     \<lparr>rtype = ''last-roll'',
      requiredParams = [\<lparr>name = ''clientId'', sources = [Query], expected = Some TString\<rparr>],
      optionalParams = [],
      timeout = None, validateParams = None, buildPayload = None, buildPendingRequest = None\<rparr>"

definition rollRoute :: api_route_config where
  "rollRoute =
     \<lparr>rtype = ''roll'',
      requiredParams =
        [\<lparr>name = ''clientId'', sources = [Query], expected = Some TString\<rparr>,
         \<lparr>name = ''formula'', sources = [Body], expected = Some TString\<rparr>],
      optionalParams =
        [\<lparr>name = ''flavor'', sources = [Body], expected = Some TString\<rparr>,
         \<lparr>name = ''createChatMessage'', sources = [Body], expected = Some TBoolean\<rparr>,
         \<lparr>name = ''speaker'', sources = [Body], expected = Some TString\<rparr>,
         \<lparr>name = ''whisper'', sources = [Body], expected = Some TArray\<rparr>],
      timeout = None, validateParams = None, buildPayload = None, buildPendingRequest = None\<rparr>"

definition chatRoute :: api_route_config where
  "chatRoute =
     \<lparr>rtype = ''chat'',
      requiredParams =
        [\<lparr>name = ''clientId'', sources = [Body], expected = Some TString\<rparr>,
         \<lparr>name = ''message'', sources = [Body], expected = Some TObject\<rparr>,
         \<lparr>name = ''message.message'', sources = [Body], expected = Some TString\<rparr>,
         \<lparr>name = ''message.speaker'', sources = [Body], expected = Some TString\<rparr>,
         \<lparr>name = ''message.type'', sources = [Body], expected = Some TString\<rparr>],
      optionalParams =
        [\<lparr>name = ''message.timestamp'', sources = [Body], expected = Some TNumber\<rparr>,
         \<lparr>name = ''message.whisper'', sources = [Body], expected = Some TBoolean\<rparr>,
         \<lparr>name = ''message.blind'', sources = [Body], expected = Some TBoolean\<rparr>,
         \<lparr>name = ''message.roll'', sources = [Body], expected = Some TObject\<rparr>],
      timeout = None, validateParams = None, buildPayload = None, buildPendingRequest = None\<rparr>"

definition chatMessagesRoute :: api_route_config where
  "chatMessagesRoute =
     \<lparr>rtype = ''chat-messages'',
      requiredParams = [\<lparr>name = ''clientId'', sources = [Query], expected = Some TString\<rparr>],
      optionalParams =
        [\<lparr>name = ''limit'', sources = [Query], expected = Some TNumber\<rparr>,
         \<lparr>name = ''sort'', sources = [Query], expected = Some TString\<rparr>,
         \<lparr>name = ''order'', sources = [Query], expected = Some TString\<rparr>,
         \<lparr>name = ''user'', sources = [Query], expected = Some TString\<rparr>,
         \<lparr>name = ''type'', sources = [Query], expected = Some TString\<rparr>],
      timeout = None, validateParams = None, buildPayload = None, buildPendingRequest = None\<rparr>"

section \<open>A concrete environment for worked examples\<close>

text \<open>
  The theorems below hold for every environment.  The worked examples run in this one:
  a \<open>parseFloat\<close> that reads unsigned decimal digits, a \<open>JSON.parse\<close> that no example
  reaches (it rejects every text), the usual base64 decoding (both alphabets, stopping at
  the padding), and a fixed sheet document.
\<close>

definition digit_value :: "char \<Rightarrow> nat option" where
  "digit_value c =
     (if 48 \<le> (of_char c :: nat) \<and> (of_char c :: nat) \<le> 57 then Some (of_char c - 48) else None)"

fun digits_value :: "nat \<Rightarrow> string \<Rightarrow> nat option" where
  "digits_value acc [] = Some acc"
| "digits_value acc (c # cs) =
     (case digit_value c of None \<Rightarrow> None | Some d \<Rightarrow> digits_value (10 * acc + d) cs)"

definition b64value :: "char \<Rightarrow> nat option" where
  "b64value c =
     (let n = (of_char c :: nat) in
      if 65 \<le> n \<and> n \<le> 90 then Some (n - 65)
      else if 97 \<le> n \<and> n \<le> 122 then Some (n - 71)
      else if 48 \<le> n \<and> n \<le> 57 then Some (n + 4)
      else if n = 43 \<or> n = 45 then Some 62
      else if n = 47 \<or> n = 95 then Some 63
      else None)"

fun sextetBytes :: "nat list \<Rightarrow> nat list" where
  "sextetBytes (a # b # c # d # rest) =
     [a * 4 + b div 16, (b mod 16) * 16 + c div 4, (c mod 4) * 64 + d] @ sextetBytes rest"
| "sextetBytes [a, b, c] = [a * 4 + b div 16, (b mod 16) * 16 + c div 4]"
| "sextetBytes [a, b] = [a * 4 + b div 16]"
| "sextetBytes rest = []"

definition base64Bytes :: "string \<Rightarrow> nat list" where
  "base64Bytes str = sextetBytes (List.map_filter b64value (takeWhile (\<lambda>c. c \<noteq> CHR ''='') str))"

definition example_env :: env where
  "example_env =
     \<lparr>parseFloat = (\<lambda>v. case v of
                           JNum n \<Rightarrow> Some n
                         | JStr str \<Rightarrow> (if str = [] then None else map_option int (digits_value 0 str))
                         | _ \<Rightarrow> None),
      jsonParse = (\<lambda>str. None),
      base64Decode = base64Bytes,
      sheetDocument = (\<lambda>pending cl data. Some ''<html></html>'')\<rparr>"

section \<open>Notions used to state the properties\<close>

text \<open>A position inside a JSON value: a path of object keys and array indices.\<close>

datatype selector = Key string | Index nat

fun at_path :: "json \<Rightarrow> selector list \<Rightarrow> json option" where
  "at_path v [] = Some v"
| "at_path (JObj kvs) (Key k # p) = (case map_of kvs k of None \<Rightarrow> None | Some v \<Rightarrow> at_path v p)"
| "at_path (JArr xs) (Index i # p) = (if i < length xs then at_path (xs ! i) p else None)"
| "at_path v (sel # p) = None"

text \<open>A sensitive key occurs somewhere in the value, at any depth.\<close>

fun has_sensitive :: "json \<Rightarrow> bool" where
  "has_sensitive (JArr xs) = (\<exists>x \<in> set xs. has_sensitive x)"
| "has_sensitive (JObj kvs) = (\<exists>kv \<in> set kvs. sensitive (fst kv) \<or> has_sensitive (snd kv))"
| "has_sensitive v = False"

text \<open>The path goes through a sensitive key.\<close>

fun sensitive_path :: "selector list \<Rightarrow> bool" where
  "sensitive_path [] = False"
| "sensitive_path (Key k # p) = (sensitive k \<or> sensitive_path p)"
| "sensitive_path (Index i # p) = sensitive_path p"

text \<open>No object in the value has a key \<open>__proto__\<close>, at any depth.\<close>

fun no_proto :: "json \<Rightarrow> bool" where
  "no_proto (JArr xs) = (\<forall>x \<in> set xs. no_proto x)"
| "no_proto (JObj kvs) = (\<forall>kv \<in> set kvs. fst kv \<noteq> ''__proto__'' \<and> no_proto (snd kv))"
| "no_proto v = True"

text \<open>A body is clean when it is no JSON value (an HTML text or a byte buffer has no
  keys) or a JSON value free of sensitive keys.\<close>

fun clean_body :: "body \<Rightarrow> bool" where
  "clean_body (JsonBody j) = (\<not> has_sensitive j)"
| "clean_body b = True"

text \<open>
  \<open>grows m m'\<close>: going from the responses \<open>m\<close> to \<open>m'\<close>, a response that was written
  stays as it is, and a response that is new has a clean body.
\<close>

definition grows :: "(nat \<rightharpoonup> http_response) \<Rightarrow> (nat \<rightharpoonup> http_response) \<Rightarrow> bool" where
  "grows m m' =
     (\<forall>r. case m r of
            Some x \<Rightarrow> m' r = Some x
          | None \<Rightarrow> (case m' r of None \<Rightarrow> True | Some y \<Rightarrow> clean_body (content y)))"

text \<open>The same at one response handle.\<close>

definition growsAt :: "nat \<Rightarrow> (nat \<rightharpoonup> http_response) \<Rightarrow> (nat \<rightharpoonup> http_response) \<Rightarrow> bool" where
  "growsAt r m m' =
     (case m r of
        Some x \<Rightarrow> m' r = Some x
      | None \<Rightarrow> (case m' r of None \<Rightarrow> True | Some y \<Rightarrow> clean_body (content y)))"

text \<open>
  The event is a request on the response handle \<open>r\<close> to an endpoint that writes its
  body with \<open>res.json\<close> directly, without \<open>safeResponse\<close>.
\<close>

fun unsanitised :: "nat \<Rightarrow> event \<Rightarrow> bool" where
  "unsanitised r (OtherRequest ep r') = (r' = r \<and> (case ep of Clients found \<Rightarrow> False | _ \<Rightarrow> True))"
| "unsanitised r ev = False"

text \<open>
  The body the caller of a relayed request is to receive for a peer's reply \<open>msg\<close>:
  \<open>requestId\<close> and \<open>clientId\<close> first, then every other property of the reply.  The
  \<open>clientId\<close> is the reply's own when it has one, else the waiter's, else the peer's id.
\<close>

definition echoedBody :: "pending_request \<Rightarrow> client \<Rightarrow> string \<Rightarrow> obj \<Rightarrow> obj" where
  "echoedBody pending cl rid msg =
     (''requestId'', JStr rid)
     # (''clientId'', (case map_of msg ''clientId'' of
                        Some v \<Rightarrow> v
                      | None \<Rightarrow> js_or (clientId pending) (JStr (getId cl))))
     # filter (\<lambda>kv. fst kv \<noteq> ''requestId'' \<and> fst kv \<noteq> ''clientId'') msg"

text \<open>\<open>overlay base src\<close>: the properties of \<open>base\<close> with the values \<open>src\<close> gives
  them, followed by the properties only \<open>src\<close> has.\<close>

definition overlay :: "obj \<Rightarrow> obj \<Rightarrow> obj" where
  "overlay base src =
     map (\<lambda>kv. (fst kv, case map_of src (fst kv) of Some v' \<Rightarrow> v' | None \<Rightarrow> snd kv)) base
     @ filter (\<lambda>kv. fst kv \<notin> set (map fst base)) src"

text \<open>
  A request passes the handler's parameter validation, with the parameters \<open>ps\<close>: the
  type coercion accepts every parameter, the route's \<open>validateParams\<close> reports nothing,
  and no required parameter is missing.
\<close>

definition passesValidation :: "env \<Rightarrow> api_route_config \<Rightarrow> request \<Rightarrow> obj \<Rightarrow> bool" where
  "passesValidation e config req ps =
     (coerceParams e (requiredParams config @ optionalParams config)
          (extractParams (requiredParams config @ optionalParams config) req) = Inr ps
      \<and> \<not> truthy (validationResult config ps req)
      \<and> firstMissing (requiredParams config) ps = None)"

text \<open>The times at which the clean-up interval fires when it was set up at \<open>start\<close>:
  the first \<open>n\<close> multiples of the interval.\<close>

definition sweepTimes :: "int \<Rightarrow> nat \<Rightarrow> int list" where
  "sweepTimes start n = map (\<lambda>k. start + SWEEP_INTERVAL * int k) [1..<Suc n]"

text \<open>
  A request is accepted: it passes validation with the parameters \<open>ps\<close>, its client
  \<open>cl\<close> is connected, the route's callbacks give the waiter's extra fields \<open>x\<close> and
  the payload source, and \<open>client.send\<close> succeeds.
\<close>

definition builtExtras :: "api_route_config \<Rightarrow> obj \<Rightarrow> pending_extras option" where
  "builtExtras config ps =
     (case buildPendingRequest config of None \<Rightarrow> Some no_extras | Some f \<Rightarrow> f ps)"

definition builtPayload :: "api_route_config \<Rightarrow> obj \<Rightarrow> request \<Rightarrow> obj option" where
  "builtPayload config ps req = (case buildPayload config of None \<Rightarrow> Some ps | Some f \<Rightarrow> f ps req)"

definition accepted ::
  "env \<Rightarrow> api_route_config \<Rightarrow> request \<Rightarrow> relay_state \<Rightarrow> obj \<Rightarrow> client \<Rightarrow> pending_extras \<Rightarrow> obj \<Rightarrow> bool" where
  "accepted e config req s ps cl x payloadSource =
     (passesValidation e config req ps
      \<and> getClient s (obj_get ps ''clientId'') = Some cl
      \<and> builtExtras config ps = Some x
      \<and> builtPayload config ps req = Some payloadSource
      \<and> sendOk cl)"

text \<open>
  The routes these sources define, and the one part of the request from which each reads
  \<open>clientId\<close>: the body for \<open>POST /chat\<close>, the query string for the others.
\<close>

definition clientIdSource :: "api_route_config \<Rightarrow> source" where
  "clientIdSource config = (if rtype config = ''chat'' then Body else Query)"

definition srcRoutes :: "api_route_config list" where
  "srcRoutes = [rollsRoute, lastRollRoute, rollRoute, chatRoute, chatMessagesRoute]"

text \<open>
  A plain \<open>POST /roll\<close>: \<open>clientId\<close> in the query string, \<open>formula\<close> in the body, no
  optional parameter; and the parameters the handler extracts from it.
\<close>

definition rollParams :: "string \<Rightarrow> string \<Rightarrow> obj" where
  "rollParams c f =
     [(''clientId'', JStr c), (''formula'', JStr f), (''flavor'', JUndefined),
      (''createChatMessage'', JUndefined), (''speaker'', JUndefined), (''whisper'', JUndefined)]"

definition plainRoll :: "request \<Rightarrow> string \<Rightarrow> string \<Rightarrow> bool" where
  "plainRoll req c f =
     (get_prop (query req) ''clientId'' = JStr c \<and> get_prop (body req) ''formula'' = JStr f
      \<and> get_prop (body req) ''flavor'' = JUndefined
      \<and> get_prop (body req) ''createChatMessage'' = JUndefined
      \<and> get_prop (body req) ''speaker'' = JUndefined
      \<and> get_prop (body req) ''whisper'' = JUndefined)"

text \<open>The formats for which the download handler writes the decoded bytes: the default
  (no format, or an empty one), \<open>binary\<close> and \<open>raw\<close>.\<close>

definition binaryFormat :: "string option \<Rightarrow> bool" where
  "binaryFormat fmt = (fmt = None \<or> fmt = Some [] \<or> fmt = Some ''binary'' \<or> fmt = Some ''raw'')"




text \<open>
  \<open>localTo k s s'\<close>: going from \<open>s\<close> to \<open>s'\<close> touched nothing but the entry of the
  requestId \<open>k\<close> (kept or deleted) and the response of the handle that entry names.
\<close>

definition localTo :: "string \<Rightarrow> relay_state \<Rightarrow> relay_state \<Rightarrow> bool" where
  "localTo k s s' =
     (timers s' = timers s \<and> outbox s' = outbox s \<and> clients s' = clients s
      \<and> (\<forall>j. j \<noteq> k \<longrightarrow> pendingRequests s' j = pendingRequests s j)
      \<and> (pendingRequests s' k = pendingRequests s k \<or> pendingRequests s' k = None)
      \<and> (\<forall>r. responses s' r = responses s r \<or> (\<exists>p. pendingRequests s k = Some p \<and> res p = r)))"




subsection \<open>Values of the worked examples\<close>

definition peer_c1 :: client where
  "peer_c1 = \<lparr>getId = ''c1'', sendOk = True\<rparr>"

definition idle_relay :: relay_state where
  "idle_relay =
     \<lparr>pendingRequests = Map.empty, responses = Map.empty, timers = [], outbox = [],
      clients = [''c1'' \<mapsto> peer_c1]\<rparr>"

text \<open>\<open>POST /roll?clientId=c1\<close> with the body \<open>{formula: "1d20"}\<close>.\<close>

definition roll_request :: request where
  "roll_request =
     \<lparr>body = JObj [(''formula'', JStr ''1d20'')], query = JObj [(''clientId'', JStr ''c1'')],
      params = JObj []\<rparr>"

text \<open>A peer's reply that carries secrets at two depths.\<close>

definition secret_fields :: obj where
  "secret_fields =
     [(''type'', JStr ''roll-result''), (''requestId'', JStr ''roll_1000''),
      (''result'', JNum 17), (''apiKey'', JStr ''k''),
      (''nested'', JArr [JObj [(''password'', JStr ''p''), (''keep'', JNum 1)]])]"

definition secret_result :: json where
  "secret_result = JObj secret_fields"

text \<open>The relay after it accepted that request on response handle 1 at time 1000, and
  the waiter it registered.\<close>

definition waiting_relay :: relay_state where
  "waiting_relay = createApiRoute example_env rollRoute roll_request 1 1000 1000 1000 idle_relay"

definition roll_waiter :: pending_request where
  "roll_waiter =
     \<lparr>res = 1, ptype = ''roll'', clientId = JStr ''c1'', uuid = None, path = None,
      query_p = None, filter_p = None, timestamp = 1000, format = None, initialScale = None,
      activeTab = None, darkMode = None\<rparr>"

text \<open>A peer's reply whose \<open>error\<close> is the empty string, next to an \<open>apiKey\<close>.\<close>

definition falsy_error_fields :: obj where
  "falsy_error_fields =
     [(''type'', JStr ''roll-result''), (''requestId'', JStr ''roll_1000''),
      (''result'', JNum 17), (''error'', JStr []), (''apiKey'', JStr ''k'')]"

text \<open>\<open>POST /roll?clientId=cZ\<close> with an empty body, for a client that is not
  connected.\<close>

definition incomplete_request :: request where
  "incomplete_request = \<lparr>body = JObj [], query = JObj [(''clientId'', JStr ''cZ'')], params = JObj []\<rparr>"

text \<open>\<open>GET /lastroll?clientId=cZ\<close>.\<close>

definition unknown_client_request :: request where
  "unknown_client_request =
     \<lparr>body = JObj [], query = JObj [(''clientId'', JStr ''cZ'')], params = JObj []\<rparr>"

text \<open>A route like \<open>POST /roll\<close> whose configuration overrides the timeout with one
  minute, and the relay after it accepted a request on that route at time 1000.\<close>

definition slowRoute :: api_route_config where
  "slowRoute = rollRoute\<lparr>timeout := Some 60000\<rparr>"

definition slow_waiting_relay :: relay_state where
  "slow_waiting_relay = createApiRoute example_env slowRoute roll_request 1 1000 1000 1000 idle_relay"

text \<open>The parameters the handler extracts from that request.\<close>

definition roll_params :: obj where
  "roll_params =
     [(''clientId'', JStr ''c1''), (''formula'', JStr ''1d20''), (''flavor'', JUndefined),
      (''createChatMessage'', JUndefined), (''speaker'', JUndefined), (''whisper'', JUndefined)]"

text \<open>\<open>POST /roll\<close> with the body \<open>{clientId: "c1", formula: "1d20"}\<close> and no
  query string.\<close>

definition body_only_request :: request where
  "body_only_request =
     \<lparr>body = JObj [(''clientId'', JStr ''c1''), (''formula'', JStr ''1d20'')], query = JObj [],
      params = JObj []\<rparr>"

text \<open>
  A relay that waits for a file: one \<open>download-file\<close> waiter on response handle 1, with
  the \<open>format\<close> the caller asked for; and the peer's reply with a PNG signature as a data
  URL.
\<close>

definition download_waiter :: "string option \<Rightarrow> pending_request" where
  "download_waiter fmt =
     \<lparr>res = 1, ptype = ''download-file'', clientId = JStr ''c1'', uuid = None, path = None,
      query_p = None, filter_p = None, timestamp = 1000, format = fmt, initialScale = None,
      activeTab = None, darkMode = None\<rparr>"

definition download_waiting :: "string option \<Rightarrow> relay_state" where
  "download_waiting fmt =
     idle_relay\<lparr>pendingRequests := [''download-file_1000'' \<mapsto> download_waiter fmt]\<rparr>"

definition file_result :: json where
  "file_result =
     JObj [(''type'', JStr ''download-file-result''), (''requestId'', JStr ''download-file_1000''),
           (''fileData'', JStr ''data:image/png;base64,iVBORw0KGgo=''),
           (''filename'', JStr ''x.png''), (''mimeType'', JStr ''image/png''),
           (''path'', JStr ''assets/x.png'')]"







section \<open>Verified properties\<close>

subsection \<open>Evaluation of the model on concrete inputs\<close>

lemmas relay_defs =
  createApiRoute_def validationResult_def relayRequest_def extractParams_def coerce_def req_source_def obj_get_def
  getClient_def requestIdOf_def show_int_def decimal.simps digit_char_def timeoutDuration_def
  relayMessage_def assign_all_def spread_def newPending_def no_extras_def quoted_def
  safeResponse_def sanitizeResponse_def sensitive_def onTimeout_def onMessage_def runHandler_def
  messageHandlers_def PENDING_REQUEST_TYPES_def REQUEST_TYPES_WITH_SPECIAL_RESPONSE_HANDLERS_def
  onResult_def resultResponse_def onSheetResponse_def onDownloadFileResult_def base64Part_def
  uuidMatches_def opt_str_def js_or_def js_and_def sweep_def step_def run_def toLowerCase_def
  lower_char_def assign_def setterInReach_def inherited_def visible_def headerChar_def refusedChars_def
  validHeaderValue_def otherEndpoint_def jsonResponse_def baseUrl_def docsBody_def VERSION_def

lemmas example_defs =
  peer_c1_def idle_relay_def roll_request_def secret_fields_def secret_result_def
  example_env_def rollRoute_def waiting_relay_def roll_waiter_def falsy_error_fields_def
  roll_params_def body_only_request_def download_waiter_def download_waiting_def
  file_result_def base64Bytes_def b64value_def List.map_filter_def incomplete_request_def unknown_client_request_def slowRoute_def slow_waiting_relay_def
  lastRollRoute_def

subsection \<open>Sanitisation\<close>

lemma removeSensitiveKeys_clean: "\<not> has_sensitive (removeSensitiveKeys d)"
  by (induction d) auto

lemma sanitizeResponse_eq: "sanitizeResponse d = removeSensitiveKeys d"
  by (cases d) (simp_all add: sanitizeResponse_def)

lemma sanitizeResponse_clean: "\<not> has_sensitive (sanitizeResponse d)"
  by (simp add: sanitizeResponse_eq removeSensitiveKeys_clean)

lemma map_of_cleaned:
  "map_of (filter (\<lambda>kv. \<not> sensitive (fst kv) \<and> fst kv \<noteq> ''__proto__'') (map (map_prod id f) kvs)) k
     = (if sensitive k \<or> k = ''__proto__'' then None else map_option f (map_of kvs k))"
  by (induction kvs) auto

lemma no_proto_lookup:
  assumes "no_proto (JObj kvs)"
  shows "map_of kvs ''__proto__'' = None" and "map_of kvs k = Some v \<Longrightarrow> no_proto v"
proof -
  have "''__proto__'' \<notin> fst ` set kvs" using assms by auto
  then show "map_of kvs ''__proto__'' = None" by (simp add: map_of_eq_None_iff)
  show "no_proto v" if "map_of kvs k = Some v"
    using map_of_SomeD [OF that] assms by auto
qed

lemma at_path_removeSensitiveKeys:
  "no_proto d \<Longrightarrow> at_path (removeSensitiveKeys d) p
     = (if sensitive_path p then None else map_option removeSensitiveKeys (at_path d p))"
proof (induction d p rule: at_path.induct)
  case (2 kvs k p)
  show ?case
  proof (cases "map_of kvs k")
    case None
    then show ?thesis by (simp add: map_of_cleaned)
  next
    case (Some v)
    have k: "k \<noteq> ''__proto__''" using no_proto_lookup(1) [OF "2.prems"] Some by auto
    have "no_proto v" using no_proto_lookup(2) [OF "2.prems" Some] .
    then show ?thesis using "2.IH" [OF Some] Some k by (simp add: map_of_cleaned)
  qed
qed auto

subsection \<open>Responses are written once, and written clean\<close>

lemma grows_refl [simp]: "grows m m"
  by (simp add: grows_def split: option.splits)

lemma grows_write: "m r = None \<Longrightarrow> clean_body (content x) \<Longrightarrow> grows m (m(r \<mapsto> x))"
  by (simp add: grows_def split: option.splits)

lemma safeResponse_fields [simp]:
  "pendingRequests (safeResponse r c d s) = pendingRequests s"
  "timers (safeResponse r c d s) = timers s"
  "outbox (safeResponse r c d s) = outbox s"
  "clients (safeResponse r c d s) = clients s"
  by (simp_all add: safeResponse_def)

lemma responses_safeResponse:
  "responses (safeResponse r c d s) =
     (if responses s r \<noteq> None then responses s
      else (responses s)(r \<mapsto> \<lparr>statusCode = c, headers = [], content = JsonBody (sanitizeResponse d)\<rparr>))"
  by (simp add: safeResponse_def)

lemma grows_safeResponse [simp]:
  "responses s' = responses s \<Longrightarrow> grows (responses s) (responses (safeResponse r c d s'))"
  by (auto simp: responses_safeResponse sanitizeResponse_clean intro!: grows_write)

lemma grows_onResult: "grows (responses s) (responses (onResult cl data s))"
  by (simp add: onResult_def Let_def split: json.splits option.splits)

lemma grows_onTimeout: "grows (responses s) (responses (onTimeout rid r s))"
  by (simp add: onTimeout_def)

lemma grows_onSheetResponse: "grows (responses s) (responses (onSheetResponse e cl data s))"
  by (auto simp: onSheetResponse_def Let_def intro!: grows_write split: json.splits option.splits)

lemma grows_onDownloadFileResult:
  "grows (responses s) (responses (onDownloadFileResult e cl data s))"
  by (auto simp: onDownloadFileResult_def Let_def intro!: grows_write
           split: json.splits option.splits)

lemma grows_relayRequest:
  "grows (responses s) (responses (relayRequest config ps req r now stamp armed cl cid s))"
  by (simp add: relayRequest_def Let_def split: option.splits)

lemma grows_createApiRoute:
  "grows (responses s) (responses (createApiRoute e config req r now stamp armed s))"
  by (simp add: createApiRoute_def Let_def grows_relayRequest split: sum.splits option.splits)

lemma grows_onMessage: "grows (responses s) (responses (onMessage e cl data s))"
  by (simp add: onMessage_def runHandler_def grows_onResult grows_onSheetResponse
        grows_onDownloadFileResult split: json.splits option.splits handler.splits)

lemma growsAt_refl [simp]: "growsAt r m m"
  by (simp add: growsAt_def split: option.splits)

lemma growsAt_trans: "growsAt r m m' \<Longrightarrow> growsAt r m' m'' \<Longrightarrow> growsAt r m m''"
  by (auto simp: growsAt_def split: option.splits)

lemma grows_at: "grows m m' \<Longrightarrow> growsAt r m m'"
  unfolding grows_def growsAt_def by (erule allE [of _ r])

lemma responses_jsonResponse:
  "responses (jsonResponse r c d s) =
     (if responses s r \<noteq> None then responses s
      else (responses s)(r \<mapsto> \<lparr>statusCode = c, headers = [], content = JsonBody d\<rparr>))"
  by (simp add: jsonResponse_def)

lemma jsonResponse_fields [simp]:
  "pendingRequests (jsonResponse r c d s) = pendingRequests s"
  "timers (jsonResponse r c d s) = timers s"
  "outbox (jsonResponse r c d s) = outbox s"
  "clients (jsonResponse r c d s) = clients s"
  by (simp_all add: jsonResponse_def)

lemma otherEndpoint_fields [simp]:
  "pendingRequests (otherEndpoint ep r s) = pendingRequests s"
  "timers (otherEndpoint ep r s) = timers s"
  "outbox (otherEndpoint ep r s) = outbox s"
  "clients (otherEndpoint ep r s) = clients s"
  by (simp_all add: otherEndpoint_def split: endpoint.splits option.splits)

lemma otherEndpoint_other:
  "r' \<noteq> r \<Longrightarrow> responses (otherEndpoint ep r s) r' = responses s r'"
  by (simp add: otherEndpoint_def responses_jsonResponse responses_safeResponse
        split: endpoint.splits option.splits)

lemma grows_clients: "grows (responses s) (responses (otherEndpoint (Clients found) r s))"
  by (simp add: otherEndpoint_def split: option.splits)

lemma growsAt_step:
  assumes "\<not> unsanitised r ev"
  shows "growsAt r (responses s) (responses (step e ev s))"
proof (cases ev)
  case (HttpRequest config req r' now stamp armed)
  then show ?thesis by (simp add: step_def grows_createApiRoute grows_at)
next
  case (OtherRequest ep r')
  show ?thesis
  proof (cases "r' = r")
    case True
    then obtain found where "ep = Clients found"
      using assms OtherRequest by (cases ep) auto
    then show ?thesis using OtherRequest by (simp add: step_def grows_clients grows_at)
  next
    case False
    then have "responses (step e ev s) r = responses s r"
      using OtherRequest otherEndpoint_other [of r r' ep s] by (simp add: step_def)
    then show ?thesis by (simp add: growsAt_def split: option.splits)
  qed
next
  case (PeerMessage cl data)
  then show ?thesis by (simp add: step_def grows_onMessage grows_at)
next
  case (TimerFires due rid r')
  then show ?thesis
    using grows_onTimeout [of "s\<lparr>timers := remove1 (due, rid, r') (timers s)\<rparr>" rid r']
    by (simp add: step_def grows_at)
next
  case (Sweep now)
  then show ?thesis by (simp add: step_def sweep_def)
qed

lemma run_Cons: "run e (ev # evs) s = run e evs (step e ev s)"
  by (simp add: run_def)

lemma run_Nil: "run e [] s = s"
  by (simp add: run_def)

lemma growsAt_run:
  "list_all (\<lambda>ev. \<not> unsanitised r ev) evs \<Longrightarrow> growsAt r (responses s) (responses (run e evs s))"
proof (induction evs arbitrary: s)
  case Nil
  then show ?case by (simp add: run_Nil)
next
  case (Cons ev evs)
  have "growsAt r (responses s) (responses (step e ev s))" using Cons.prems by (simp add: growsAt_step)
  moreover have "growsAt r (responses (step e ev s)) (responses (run e evs (step e ev s)))"
    using Cons.IH Cons.prems by simp
  ultimately show ?case unfolding run_Cons by (rule growsAt_trans)
qed

subsection \<open>An accepted request, and the text of its requestId\<close>

lemma createApiRoute_accepted:
  assumes "accepted e config req s ps cl x payloadSource"
  shows "createApiRoute e config req r now stamp armed s =
           s\<lparr>pendingRequests := (pendingRequests s)(requestIdOf (rtype config) now \<mapsto>
                  newPending r (rtype config) (obj_get ps ''clientId'') stamp x),
             outbox := outbox s @
               [(getId cl, JObj (relayMessage (rtype config) (requestIdOf (rtype config) now)
                   (filter (\<lambda>kv. fst kv \<noteq> ''clientId'' \<and> fst kv \<noteq> ''type'') payloadSource)))],
             timers := timers s @ [(armed + timeoutDuration config, requestIdOf (rtype config) now, r)]\<rparr>"
  using assms
  by (simp add: accepted_def passesValidation_def builtExtras_def builtPayload_def
        createApiRoute_def relayRequest_def Let_def)

lemma digit_char_inj: "a < 10 \<Longrightarrow> b < 10 \<Longrightarrow> digit_char a = digit_char b \<Longrightarrow> a = b"
  unfolding digit_char_def
  by (rule nth_eq_iff_index_eq [THEN iffD1, of "''0123456789''"]) simp_all

lemma decimal_nonempty: "decimal n \<noteq> []"
  by (subst decimal.simps) simp

lemma decimal_last: "last (decimal n) = digit_char (n mod 10)"
  by (subst decimal.simps) simp

lemma decimal_butlast: "butlast (decimal n) = (if n < 10 then [] else decimal (n div 10))"
  by (subst decimal.simps) simp

lemma decimal_inj: "decimal n = decimal m \<Longrightarrow> n = m"
proof (induction n arbitrary: m rule: decimal.induct)
  case (1 n)
  have lastd: "digit_char (n mod 10) = digit_char (m mod 10)"
    using "1.prems" decimal_last [of n] decimal_last [of m] by simp
  then have mods: "n mod 10 = m mod 10"
    by (intro digit_char_inj) simp_all
  have bl: "butlast (decimal n) = butlast (decimal m)" using "1.prems" by simp
  show ?case
  proof (cases "n < 10")
    case True
    then have "m < 10" using bl decimal_nonempty [of "m div 10"]
      by (auto simp: decimal_butlast split: if_splits)
    then show ?thesis using True mods by simp
  next
    case False
    then have m10: "\<not> m < 10" using bl decimal_nonempty [of "n div 10"]
      by (auto simp: decimal_butlast split: if_splits)
    then have "decimal (n div 10) = decimal (m div 10)"
      using bl False by (simp add: decimal_butlast)
    then have "n div 10 = m div 10" using "1.IH" [OF False] by simp
    then show ?thesis using mods by (metis div_mult_mod_eq)
  qed
qed

lemma digit_char_digit: "d < 10 \<Longrightarrow> digit_char d \<in> set ''0123456789''"
  unfolding digit_char_def by (rule nth_mem) simp

lemma digit_char_plain: "d < 10 \<Longrightarrow> digit_char d \<noteq> CHR ''_'' \<and> digit_char d \<noteq> CHR ''-''"
  using digit_char_digit [of d] by auto

lemma decimal_plain: "CHR ''_'' \<notin> set (decimal n) \<and> CHR ''-'' \<notin> set (decimal n)"
proof (induction n rule: decimal.induct)
  case (1 n)
  show ?case
  proof (cases "n < 10")
    case True
    then show ?thesis using digit_char_plain [of n] by (subst (1 2) decimal.simps) auto
  next
    case False
    have "n mod 10 < 10" by simp
    then show ?thesis using False "1.IH" digit_char_plain [of "n mod 10"]
      by (subst (1 2) decimal.simps) auto
  qed
qed

lemma show_int_inj: "show_int a = show_int b \<Longrightarrow> a = b"
proof -
  assume eq: "show_int a = show_int b"
  have nominus: "\<And>n ds. decimal n \<noteq> CHR ''-'' # ds"
    using decimal_plain by (metis list.set_intros(1))
  show ?thesis
  proof (cases "a < 0")
    case True
    then have "b < 0" using eq nominus nominus [symmetric] by (auto simp: show_int_def split: if_splits)
    then have "decimal (nat (- a)) = decimal (nat (- b))" using eq True by (simp add: show_int_def)
    then have "nat (- a) = nat (- b)" by (rule decimal_inj)
    then show ?thesis using True \<open>b < 0\<close> by simp
  next
    case False
    then have nb: "\<not> b < 0" using eq nominus nominus [symmetric] by (auto simp: show_int_def split: if_splits)
    then have "decimal (nat a) = decimal (nat b)" using eq False by (simp add: show_int_def)
    then have "nat a = nat b" by (rule decimal_inj)
    then show ?thesis using False nb by simp
  qed
qed

lemma split_unique:
  "c \<notin> set a \<Longrightarrow> c \<notin> set b \<Longrightarrow> a @ c # x = b @ c # y \<Longrightarrow> a = b \<and> x = y"
proof (induction a arbitrary: b)
  case Nil
  then show ?case by (cases b) auto
next
  case (Cons h a)
  then show ?case by (cases b) auto
qed

lemma requestIdOf_inj:
  "CHR ''_'' \<notin> set t \<Longrightarrow> CHR ''_'' \<notin> set t' \<Longrightarrow> requestIdOf t now = requestIdOf t' now'
     \<Longrightarrow> t = t' \<and> now = now'"
  using split_unique [of "CHR ''_''" t t' "show_int now" "show_int now'"] show_int_inj
  by (auto simp: requestIdOf_def)

lemma types_plain: "t \<in> set PENDING_REQUEST_TYPES \<Longrightarrow> CHR ''_'' \<notin> set t"
  by (auto simp: PENDING_REQUEST_TYPES_def)

subsection \<open>What an event leaves alone\<close>

lemma localTo_refl [simp]: "localTo k s s"
  by (simp add: localTo_def)






























subsection \<open>Object assignment in closed form\<close>

lemma dispatch_result:
  "t \<in> set PENDING_REQUEST_TYPES \<Longrightarrow> t \<noteq> ''download-file''
     \<Longrightarrow> map_of messageHandlers (t @ ''-result'') = Some (ResultHandler t)"
  by (auto simp: messageHandlers_def PENDING_REQUEST_TYPES_def
        REQUEST_TYPES_WITH_SPECIAL_RESPONSE_HANDLERS_def)

lemma map_fst_obj_set:
  "map fst (obj_set ps k v) = (if k \<in> set (map fst ps) then map fst ps else map fst ps @ [k])"
  by (induction ps) (force simp: image_iff)+

lemma keys_obj_set: "set (map fst (obj_set ps k v)) = insert k (set (map fst ps))"
  by (auto simp: map_fst_obj_set simp del: set_map)

lemma distinct_obj_set: "distinct (map fst ps) \<Longrightarrow> distinct (map fst (obj_set ps k v))"
  by (simp add: map_fst_obj_set del: set_map)

lemma obj_set_new: "k \<notin> set (map fst ps) \<Longrightarrow> obj_set ps k v = ps @ [(k, v)]"
  by (induction ps) auto

lemma obj_set_old:
  "distinct (map fst ps) \<Longrightarrow> k \<in> set (map fst ps)
     \<Longrightarrow> obj_set ps k v = map (\<lambda>kv. if fst kv = k then (k, v) else kv) ps"
proof (induction ps)
  case Nil
  then show ?case by simp
next
  case (Cons a ps)
  obtain k' v' where a: "a = (k', v')" by (cases a)
  show ?case
  proof (cases "k' = k")
    case True
    then have "k \<notin> set (map fst ps)" using Cons.prems(1) a by simp
    then have "map (\<lambda>kv. if fst kv = k then (k, v) else kv) ps = ps"
      by (intro map_idI) auto
    then show ?thesis using True a by simp
  next
    case False
    then show ?thesis using Cons a by auto
  qed
qed

lemma assign_all_overlay:
  "distinct (map fst src) \<Longrightarrow> distinct (map fst base) \<Longrightarrow> assign_all base src = overlay base src"
proof (induction src arbitrary: base)
  case Nil
  then show ?case by (simp add: assign_all_def overlay_def)
next
  case (Cons kv src)
  obtain k v where kv: "kv = (k, v)" by (cases kv)
  have knot: "k \<notin> set (map fst src)" and dsrc: "distinct (map fst src)"
    using Cons.prems(1) kv by auto
  have nomap: "map_of src k = None" using knot by (simp add: map_of_eq_None_iff)
  have step: "assign_all base (kv # src) = assign_all (obj_set base k v) src"
    by (simp add: assign_all_def kv)
  have ih: "assign_all (obj_set base k v) src = overlay (obj_set base k v) src"
    using Cons.IH [OF dsrc distinct_obj_set [OF Cons.prems(2)]] .
  have keys: "set (map fst (obj_set base k v)) = insert k (set (map fst base))"
    by (rule keys_obj_set)
  have flt: "filter (\<lambda>kv. fst kv \<notin> insert k (set (map fst base))) src
               = filter (\<lambda>kv. fst kv \<notin> set (map fst base)) src"
    using knot by (intro filter_cong) auto
  show ?case
  proof (cases "k \<in> set (map fst base)")
    case True
    have "map (\<lambda>kv. (fst kv, case map_of src (fst kv) of Some v' \<Rightarrow> v' | None \<Rightarrow> snd kv))
            (obj_set base k v)
          = map (\<lambda>kv'. (fst kv', case map_of (kv # src) (fst kv') of Some v' \<Rightarrow> v' | None \<Rightarrow> snd kv')) base"
      using nomap by (simp add: obj_set_old [OF Cons.prems(2) True] kv)
    then have "overlay (obj_set base k v) src = overlay base (kv # src)"
      using True flt by (simp add: overlay_def keys kv del: set_map)
    then show ?thesis using step ih by simp
  next
    case False
    have "map (\<lambda>kv. (fst kv, case map_of src (fst kv) of Some v' \<Rightarrow> v' | None \<Rightarrow> snd kv))
            (obj_set base k v)
          = map (\<lambda>kv'. (fst kv', case map_of (kv # src) (fst kv') of Some v' \<Rightarrow> v' | None \<Rightarrow> snd kv')) base
            @ [(k, v)]"
      using nomap False by (auto simp: obj_set_new [OF False] kv)
    then have "overlay (obj_set base k v) src = overlay base (kv # src)"
      using False flt by (simp add: overlay_def keys kv del: set_map)
    then show ?thesis using step ih by simp
  qed
qed

lemma map_of_filter_key: "P k \<Longrightarrow> map_of (filter (\<lambda>kv. P (fst kv)) kvs) k = map_of kvs k"
  by (induction kvs) auto

lemma map_of_filter_out: "\<not> P k \<Longrightarrow> map_of (filter (\<lambda>kv. P (fst kv)) kvs) k = None"
  by (induction kvs) auto

lemma foldl_assign_plain:
  "''__proto__'' \<notin> set (map fst src)
     \<Longrightarrow> foldl (\<lambda>b kv. assign b (fst kv) (snd kv)) b src = b\<lparr>own := assign_all (own b) src\<rparr>"
proof (induction src arbitrary: b)
  case Nil
  then show ?case by (simp add: assign_all_def)
next
  case (Cons kv src)
  have "fst kv \<noteq> ''__proto__''" using Cons.prems by auto
  then have "assign b (fst kv) (snd kv) = b\<lparr>own := obj_set (own b) (fst kv) (snd kv)\<rparr>"
    by (simp add: assign_def)
  then show ?case using Cons by (simp add: assign_all_def)
qed

lemma visible_plain [simp]: "visible \<lparr>own = ps, proto = None\<rparr> = ps"
  by (simp add: visible_def inherited_def)

lemma resultResponse_echoed:
  assumes "distinct (map fst msg)" and "''__proto__'' \<notin> set (map fst msg)"
  shows "visible (resultResponse pending cl rid (JObj msg)) = echoedBody pending cl rid msg"
proof -
  let ?src = "filter (\<lambda>kv. fst kv \<noteq> ''requestId'') msg"
  have d: "distinct (map fst ?src)" using assms by (simp add: distinct_map_filter)
  have m1: "map_of ?src ''requestId'' = None"
    using map_of_filter_out [of "\<lambda>k. k \<noteq> ''requestId''" "''requestId''" msg] by simp
  have m2: "map_of ?src ''clientId'' = map_of msg ''clientId''"
    using map_of_filter_key [of "\<lambda>k. k \<noteq> ''requestId''" "''clientId''" msg] by simp
  have f: "filter (\<lambda>kv. fst kv \<noteq> ''requestId'' \<and> fst kv \<noteq> ''clientId'') ?src
             = filter (\<lambda>kv. fst kv \<noteq> ''requestId'' \<and> fst kv \<noteq> ''clientId'') msg"
    by (simp cong: conj_cong)
  have np: "''__proto__'' \<notin> set (map fst ?src)" using assms(2) by auto
  have plain: "resultResponse pending cl rid (JObj msg)
      = \<lparr>own = assign_all [(''requestId'', JStr rid),
                 (''clientId'', js_or (clientId pending) (JStr (getId cl)))] ?src,
         proto = None\<rparr>"
    unfolding resultResponse_def spread_def using foldl_assign_plain [OF np] by simp
  show ?thesis
    unfolding plain
    using assign_all_overlay [OF d, of "[(''requestId'', JStr rid),
        (''clientId'', js_or (clientId pending) (JStr (getId cl)))]"] m1 m2 f
    by (simp add: overlay_def echoedBody_def conj_commute cong: conj_cong split: option.splits)
qed

lemma echoed_error: "obj_get (echoedBody pending cl rid msg) ''error'' = obj_get msg ''error''"
  using map_of_filter_key [of "\<lambda>k. k \<noteq> ''requestId'' \<and> k \<noteq> ''clientId''" "''error''" msg]
  by (simp add: echoedBody_def obj_get_def)

lemma onMessage_result:
  assumes "t \<in> set PENDING_REQUEST_TYPES" and "t \<noteq> ''download-file''"
    and "distinct (map fst msg)"
    and "map_of msg ''type'' = Some (JStr (t @ ''-result''))"
    and "map_of msg ''requestId'' = Some (JStr rid)" and "rid \<noteq> []"
    and "pendingRequests s rid = Some pending"
    and "responses s (res pending) = None"
    and "''__proto__'' \<notin> set (map fst msg)"
  shows "onMessage e cl (JObj msg) s =
           s\<lparr>responses := (responses s)(res pending \<mapsto>
                \<lparr>statusCode = (if truthy (obj_get msg ''error'') then 400 else 200),
                 headers = [],
                 content = JsonBody (sanitizeResponse (JObj (echoedBody pending cl rid msg)))\<rparr>),
             pendingRequests := (pendingRequests s)(rid := None)\<rparr>"
proof -
  have h: "map_of messageHandlers (t @ ''-result'') = Some (ResultHandler t)"
    using assms(1,2) by (rule dispatch_result)
  have "onMessage e cl (JObj msg) s = onResult cl (JObj msg) s"
    using h assms(4) by (simp add: onMessage_def runHandler_def obj_get_def)
  also have "\<dots> = s\<lparr>responses := (responses s)(res pending \<mapsto>
                \<lparr>statusCode = (if truthy (obj_get msg ''error'') then 400 else 200),
                 headers = [],
                 content = JsonBody (sanitizeResponse (JObj (echoedBody pending cl rid msg)))\<rparr>),
             pendingRequests := (pendingRequests s)(rid := None)\<rparr>"
    using assms(5-8)
    by (simp add: onResult_def obj_get_def [of msg "''requestId''"] Let_def
          resultResponse_echoed [OF assms(3,9)] echoed_error safeResponse_def)
  finally show ?thesis .
qed

subsection \<open>A peer's result completes the waiter\<close>

text \<open>
  C1 (as amended).  For every recognised request type \<open>t\<close> other than
  \<open>download-file\<close>, a peer message of type \<open>t-result\<close> that has no key
  \<open>__proto__\<close> at any depth and whose \<open>requestId\<close> names a registered waiter whose
  HTTP response is still unsent completes that response and changes nothing else but the
  table: the status is 400 when the message's \<open>error\<close> is truthy and 200 otherwise (an
  \<open>error\<close> that is \<open>""\<close>, \<open>0\<close>, \<open>false\<close> or \<open>null\<close> gives 200), the body is the
  sanitised \<open>{requestId, clientId, ...every other property of the message}\<close>, and the
  waiter is removed.
\<close>

theorem result_message_completes_waiter:
  assumes "t \<in> set PENDING_REQUEST_TYPES" and "t \<noteq> ''download-file''"
    and "distinct (map fst msg)" and "no_proto (JObj msg)"
    and "map_of msg ''type'' = Some (JStr (t @ ''-result''))"
    and "map_of msg ''requestId'' = Some (JStr rid)" and "rid \<noteq> []"
    and "pendingRequests s rid = Some pending"
    and "responses s (res pending) = None"
  shows "onMessage e cl (JObj msg) s =
           s\<lparr>responses := (responses s)(res pending \<mapsto>
                \<lparr>statusCode = (if truthy (obj_get msg ''error'') then 400 else 200),
                 headers = [],
                 content = JsonBody (sanitizeResponse (JObj (echoedBody pending cl rid msg)))\<rparr>),
             pendingRequests := (pendingRequests s)(rid := None)\<rparr>"
proof -
  have "''__proto__'' \<notin> set (map fst msg)" using assms(4) by auto
  then show ?thesis using assms(1-3,5-9) by (intro onMessage_result) auto
qed

theorem result_message_completes_waiter_witness:
  "''roll'' \<in> set PENDING_REQUEST_TYPES \<and> distinct (map fst secret_fields)
   \<and> no_proto (JObj secret_fields)
   \<and> map_of secret_fields ''type'' = Some (JStr (''roll'' @ ''-result''))
   \<and> map_of secret_fields ''requestId'' = Some (JStr ''roll_1000'')
   \<and> pendingRequests waiting_relay ''roll_1000'' = Some roll_waiter
   \<and> responses waiting_relay (res roll_waiter) = None
   \<and> onMessage example_env peer_c1 (JObj secret_fields) waiting_relay =
        waiting_relay\<lparr>responses := (responses waiting_relay)(1 \<mapsto>
             \<lparr>statusCode = 200, headers = [],
              content = JsonBody (JObj [(''requestId'', JStr ''roll_1000''), (''clientId'', JStr ''c1''),
                  (''type'', JStr ''roll-result''), (''result'', JNum 17),
                  (''nested'', JArr [JObj [(''keep'', JNum 1)]])])\<rparr>),
           pendingRequests := (pendingRequests waiting_relay)(''roll_1000'' := None)\<rparr>"
  using result_message_completes_waiter [where t = "''roll''" and msg = secret_fields
      and rid = "''roll_1000''" and s = waiting_relay and pending = roll_waiter
      and e = example_env and cl = peer_c1]
  by (simp add: relay_defs example_defs echoedBody_def Let_def)

text \<open>
  The claim as it was stated fails: the reply \<open>falsy_error_fields\<close> carries an
  \<open>error\<close> field and an \<open>apiKey\<close> field, yet the caller receives status 200, and the
  \<open>apiKey\<close> is not passed through.
\<close>

theorem falsy_error_and_secret_counterexample:
  "map_of falsy_error_fields ''error'' = Some (JStr [])
   \<and> map_of falsy_error_fields ''apiKey'' = Some (JStr ''k'')
   \<and> responses (onMessage example_env peer_c1 (JObj falsy_error_fields) waiting_relay) 1 =
        Some \<lparr>statusCode = 200, headers = [],
              content = JsonBody (JObj [(''requestId'', JStr ''roll_1000''), (''clientId'', JStr ''c1''),
                  (''type'', JStr ''roll-result''), (''result'', JNum 17), (''error'', JStr [])])\<rparr>"
  by (simp add: relay_defs example_defs Let_def)

subsection \<open>The timeout of a request\<close>




subsection \<open>Two requests under one requestId\<close>

text \<open>
  C3.  A waiter is to leave the table once, by one completion path (the peer's
  success or error reply, or the timeout), and a later attempt for its requestId is to
  find nothing.  The handler takes the requestId from the type and the clock's
  millisecond, and \<open>pendingRequests.set\<close> does not look for an entry that is already
  there, so the code breaks this when two requests share a requestId.  Two
  \<open>POST /roll\<close> requests accepted in the same millisecond (response handles 1 and 2)
  are both registered under \<open>roll_1000\<close>: the second registration replaces the first
  waiter, which so leaves the table by no completion path and with no response written.
  The first request's timer then finds the second request's waiter, deletes it and
  answers the first caller with 408; the second request's timer finds no entry, and the
  second caller is left with no entry, no timer and no response.
\<close>

theorem colliding_requests_lose_a_waiter:
  "pendingRequests (run example_env
      [HttpRequest rollRoute roll_request 1 1000 1000 1000,
       HttpRequest rollRoute roll_request 2 1000 1000 1000]
      idle_relay) = [''roll_1000'' \<mapsto> roll_waiter\<lparr>res := 2\<rparr>]
   \<and> responses (run example_env
      [HttpRequest rollRoute roll_request 1 1000 1000 1000,
       HttpRequest rollRoute roll_request 2 1000 1000 1000]
      idle_relay) = Map.empty
   \<and> pendingRequests (run example_env
      [HttpRequest rollRoute roll_request 1 1000 1000 1000,
       HttpRequest rollRoute roll_request 2 1000 1000 1000,
       TimerFires 11000 ''roll_1000'' 1] idle_relay) = Map.empty
   \<and> responses (run example_env
      [HttpRequest rollRoute roll_request 1 1000 1000 1000,
       HttpRequest rollRoute roll_request 2 1000 1000 1000,
       TimerFires 11000 ''roll_1000'' 1] idle_relay)
       = [1 \<mapsto> \<lparr>statusCode = 408, headers = [],
                 content = JsonBody (JObj [(''error'', JStr ''Request timed out'')])\<rparr>]
   \<and> responses (run example_env
      [HttpRequest rollRoute roll_request 1 1000 1000 1000,
       HttpRequest rollRoute roll_request 2 1000 1000 1000,
       TimerFires 11000 ''roll_1000'' 1, TimerFires 11000 ''roll_1000'' 2] idle_relay) 2 = None
   \<and> timers (run example_env
      [HttpRequest rollRoute roll_request 1 1000 1000 1000,
       HttpRequest rollRoute roll_request 2 1000 1000 1000,
       TimerFires 11000 ''roll_1000'' 1, TimerFires 11000 ''roll_1000'' 2] idle_relay) = []"
  by (simp add: relay_defs example_defs Let_def)

subsection \<open>Where a route reads the client ID\<close>

lemma map_of_obj_set: "map_of (obj_set ps k v) = (map_of ps)(k \<mapsto> v)"
  by (induction ps) auto

lemma obj_get_obj_set: "obj_get (obj_set ps n v) k = (if n = k then v else obj_get ps k)"
  by (simp add: obj_get_def map_of_obj_set)

lemma coerceParams_keeps_missing:
  "coerceParams e defs ps = Inr ps' \<Longrightarrow> obj_get ps k = JUndefined \<or> obj_get ps k = JNull
     \<Longrightarrow> obj_get ps' k = obj_get ps k"
proof (induction defs arbitrary: ps)
  case Nil
  then show ?case by simp
next
  case (Cons p defs)
  show ?case
  proof (cases "obj_get ps (name p) = JUndefined \<or> obj_get ps (name p) = JNull")
    case True
    then have "coerceParams e defs ps = Inr ps'" using Cons.prems(1) by (auto simp: Let_def)
    then show ?thesis using Cons.IH Cons.prems(2) by blast
  next
    case False
    show ?thesis
    proof (cases "expected p")
      case None
      then have "coerceParams e defs ps = Inr ps'" using Cons.prems(1) False by (auto simp: Let_def)
      then show ?thesis using Cons.IH Cons.prems(2) by blast
    next
      case (Some t)
      then obtain v' where c: "coerce e t (name p) (obj_get ps (name p)) = Inr v'"
        and rest: "coerceParams e defs (obj_set ps (name p) v') = Inr ps'"
        using Cons.prems(1) False by (auto simp: Let_def split: sum.splits)
      have nk: "name p \<noteq> k" using False Cons.prems(2) by auto
      have "obj_get (obj_set ps (name p) v') k = obj_get ps k" using nk by (simp add: obj_get_obj_set)
      then show ?thesis using Cons.IH [OF rest] Cons.prems(2) by simp
    qed
  qed
qed

lemma missing_first_required_rejected:
  assumes "requiredParams config = d # rest"
    and "obj_get (extractParams (requiredParams config @ optionalParams config) req) (name d) = JUndefined
         \<or> obj_get (extractParams (requiredParams config @ optionalParams config) req) (name d) = JNull"
  shows "\<exists>data. createApiRoute e config req r now stamp armed s = safeResponse r 400 data s"
proof (cases "coerceParams e (requiredParams config @ optionalParams config)
          (extractParams (requiredParams config @ optionalParams config) req)")
  case (Inl err)
  then show ?thesis by (auto simp: createApiRoute_def Let_def)
next
  case (Inr ps)
  have "obj_get ps (name d) = JUndefined \<or> obj_get ps (name d) = JNull"
    using coerceParams_keeps_missing [OF Inr assms(2)] assms(2) by auto
  then have "firstMissing (requiredParams config) ps = Some (name d)"
    using assms(1) by auto
  then show ?thesis using Inr by (auto simp: createApiRoute_def Let_def)
qed

lemma safeResponse_400_effect:
  "createApiRoute e config req r now stamp armed s = safeResponse r 400 data s \<Longrightarrow>
     pendingRequests (createApiRoute e config req r now stamp armed s) = pendingRequests s
     \<and> timers (createApiRoute e config req r now stamp armed s) = timers s
     \<and> outbox (createApiRoute e config req r now stamp armed s) = outbox s
     \<and> (responses s r = None \<longrightarrow>
          map_option statusCode (responses (createApiRoute e config req r now stamp armed s) r) = Some 400)"
  by (simp add: responses_safeResponse)

lemma route_reads_one_source:
  assumes "config \<in> set srcRoutes"
    and "get_prop (req_source req (clientIdSource config)) ''clientId'' = JUndefined
         \<or> get_prop (req_source req (clientIdSource config)) ''clientId'' = JNull"
  shows "\<exists>data. createApiRoute e config req r now stamp armed s = safeResponse r 400 data s"
proof -
  have "\<exists>d rest. requiredParams config = d # rest \<and> name d = ''clientId''
        \<and> obj_get (extractParams (requiredParams config @ optionalParams config) req) ''clientId''
            = get_prop (req_source req (clientIdSource config)) ''clientId''"
    using assms(1)
    by (auto simp: srcRoutes_def rollsRoute_def lastRollRoute_def rollRoute_def chatRoute_def
          chatMessagesRoute_def clientIdSource_def extractParams_def obj_get_def)
  then obtain d rest where d: "requiredParams config = d # rest" "name d = ''clientId''"
    "obj_get (extractParams (requiredParams config @ optionalParams config) req) ''clientId''
            = get_prop (req_source req (clientIdSource config)) ''clientId''" by blast
  show ?thesis
    using missing_first_required_rejected [OF d(1), of req e r now stamp armed s] d(2,3) assms(2) by simp
qed

lemma roll_route_accepted:
  assumes "plainRoll req c f" and "clients s c = Some cl" and "sendOk cl"
  shows "accepted e rollRoute req s (rollParams c f) cl no_extras (rollParams c f)"
  using assms
  by (simp add: plainRoll_def accepted_def passesValidation_def builtExtras_def builtPayload_def
        rollRoute_def extractParams_def req_source_def coerce_def obj_get_def validationResult_def
        getClient_def rollParams_def Let_def)

lemma roll_message:
  "relayMessage ''roll'' rid
     (filter (\<lambda>kv. fst kv \<noteq> ''clientId'' \<and> fst kv \<noteq> ''type'') (rollParams c f))
   = [(''type'', JStr ''roll''), (''requestId'', JStr rid), (''formula'', JStr f),
      (''flavor'', JUndefined), (''createChatMessage'', JUndefined), (''speaker'', JUndefined),
      (''whisper'', JUndefined), (''data'', JObj [])]"
  by (simp add: relayMessage_def rollParams_def assign_all_def spread_def obj_get_def)

lemma requestIdOf_nonempty: "requestIdOf t now \<noteq> []"
  by (simp add: requestIdOf_def)

text \<open>
  C4 (as amended).  Each relay endpoint reads the target \<open>clientId\<close> from the one source
  its route names (the query string for \<open>GET /rolls\<close>, \<open>GET /lastroll\<close>,
  \<open>POST /roll\<close> and \<open>GET /messages\<close>, the body for \<open>POST /chat\<close>): a request without
  a \<open>clientId\<close> there is answered 400 and nothing is registered or relayed, whatever the
  other parts of the request hold.  \<open>POST /roll?clientId=c\<close> with the body
  \<open>{formula: f}\<close> is accepted for a connected peer \<open>c\<close>: the waiter is registered, the
  \<open>roll\<close> message is handed to that peer, and when the peer answers with a
  \<open>roll-result\<close> for that \<open>requestId\<close> (a reply without a key \<open>__proto__\<close>) the
  caller receives the peer's payload, with status 200 unless the payload's \<open>error\<close> is
  truthy.
\<close>

theorem clientId_read_from_route_source:
  "(config \<in> set srcRoutes
      \<and> (get_prop (req_source req0 (clientIdSource config)) ''clientId'' = JUndefined
          \<or> get_prop (req_source req0 (clientIdSource config)) ''clientId'' = JNull) \<longrightarrow>
      pendingRequests (createApiRoute e config req0 r now stamp armed s) = pendingRequests s
      \<and> timers (createApiRoute e config req0 r now stamp armed s) = timers s
      \<and> outbox (createApiRoute e config req0 r now stamp armed s) = outbox s
      \<and> (responses s r = None \<longrightarrow>
           map_option statusCode (responses (createApiRoute e config req0 r now stamp armed s) r) = Some 400))
   \<and> (plainRoll req c f \<and> clients s c = Some cl \<and> sendOk cl \<and> responses s r = None \<longrightarrow>
        createApiRoute e rollRoute req r now stamp armed s =
          s\<lparr>pendingRequests := (pendingRequests s)(requestIdOf ''roll'' now \<mapsto>
                 newPending r ''roll'' (JStr c) stamp no_extras),
            outbox := outbox s @
              [(getId cl, JObj [(''type'', JStr ''roll''), (''requestId'', JStr (requestIdOf ''roll'' now)),
                 (''formula'', JStr f), (''flavor'', JUndefined), (''createChatMessage'', JUndefined),
                 (''speaker'', JUndefined), (''whisper'', JUndefined), (''data'', JObj [])])],
            timers := timers s @ [(armed + 10000, requestIdOf ''roll'' now, r)]\<rparr>
        \<and> (distinct (map fst msg) \<and> ''__proto__'' \<notin> set (map fst msg)
             \<and> map_of msg ''type'' = Some (JStr ''roll-result'')
             \<and> map_of msg ''requestId'' = Some (JStr (requestIdOf ''roll'' now)) \<longrightarrow>
             responses (onMessage e cl (JObj msg) (createApiRoute e rollRoute req r now stamp armed s)) r =
               Some \<lparr>statusCode = (if truthy (obj_get msg ''error'') then 400 else 200), headers = [],
                     content = JsonBody (sanitizeResponse (JObj
                       (echoedBody (newPending r ''roll'' (JStr c) stamp no_extras) cl
                          (requestIdOf ''roll'' now) msg)))\<rparr>))"
proof -
  have neg: "pendingRequests (createApiRoute e config req0 r now stamp armed s) = pendingRequests s
      \<and> timers (createApiRoute e config req0 r now stamp armed s) = timers s
      \<and> outbox (createApiRoute e config req0 r now stamp armed s) = outbox s
      \<and> (responses s r = None \<longrightarrow>
           map_option statusCode (responses (createApiRoute e config req0 r now stamp armed s) r) = Some 400)"
    if "config \<in> set srcRoutes"
      and "get_prop (req_source req0 (clientIdSource config)) ''clientId'' = JUndefined
          \<or> get_prop (req_source req0 (clientIdSource config)) ''clientId'' = JNull"
    using route_reads_one_source [OF that, of e r now stamp armed s] safeResponse_400_effect by blast
  have pos: "createApiRoute e rollRoute req r now stamp armed s =
          s\<lparr>pendingRequests := (pendingRequests s)(requestIdOf ''roll'' now \<mapsto>
                 newPending r ''roll'' (JStr c) stamp no_extras),
            outbox := outbox s @
              [(getId cl, JObj [(''type'', JStr ''roll''), (''requestId'', JStr (requestIdOf ''roll'' now)),
                 (''formula'', JStr f), (''flavor'', JUndefined), (''createChatMessage'', JUndefined),
                 (''speaker'', JUndefined), (''whisper'', JUndefined), (''data'', JObj [])])],
            timers := timers s @ [(armed + 10000, requestIdOf ''roll'' now, r)]\<rparr>"
    (is "_ = ?s1")
    if "plainRoll req c f" and "clients s c = Some cl" and "sendOk cl"
    using createApiRoute_accepted [OF roll_route_accepted [OF that], of e r now stamp armed] roll_message [of _ c f]
    by (simp add: rollRoute_def timeoutDuration_def rollParams_def obj_get_def)
  have echo: "responses (onMessage e cl (JObj msg) (createApiRoute e rollRoute req r now stamp armed s)) r =
               Some \<lparr>statusCode = (if truthy (obj_get msg ''error'') then 400 else 200), headers = [],
                     content = JsonBody (sanitizeResponse (JObj
                       (echoedBody (newPending r ''roll'' (JStr c) stamp no_extras) cl
                          (requestIdOf ''roll'' now) msg)))\<rparr>"
    if a: "plainRoll req c f" "clients s c = Some cl" "sendOk cl" and un: "responses s r = None"
      and m: "distinct (map fst msg)" "map_of msg ''type'' = Some (JStr ''roll-result'')"
        "map_of msg ''requestId'' = Some (JStr (requestIdOf ''roll'' now))"
        "''__proto__'' \<notin> set (map fst msg)"
  proof -
    have t: "''roll'' \<in> set PENDING_REQUEST_TYPES" by (simp add: PENDING_REQUEST_TYPES_def)
    have ty: "map_of msg ''type'' = Some (JStr (''roll'' @ ''-result''))" using m(2) by simp
    show ?thesis
      unfolding pos [OF a]
      by (subst onMessage_result [OF t _ m(1) ty m(3) requestIdOf_nonempty _ _ m(4),
            where pending = "newPending r ''roll'' (JStr c) stamp no_extras"])
         (simp_all add: un newPending_def)
  qed
  show ?thesis using neg pos echo by blast
qed

theorem clientId_read_from_route_source_witness:
  "rollRoute \<in> set srcRoutes
   \<and> get_prop (req_source body_only_request (clientIdSource rollRoute)) ''clientId'' = JUndefined
   \<and> pendingRequests (createApiRoute example_env rollRoute body_only_request 1 1000 1000 1000 idle_relay)
       = pendingRequests idle_relay
   \<and> plainRoll roll_request ''c1'' ''1d20'' \<and> clients idle_relay ''c1'' = Some peer_c1
   \<and> sendOk peer_c1 \<and> responses idle_relay 1 = None
   \<and> outbox (createApiRoute example_env rollRoute roll_request 1 1000 1000 1000 idle_relay)
       = [(''c1'', JObj [(''type'', JStr ''roll''), (''requestId'', JStr ''roll_1000''),
            (''formula'', JStr ''1d20''), (''flavor'', JUndefined), (''createChatMessage'', JUndefined),
            (''speaker'', JUndefined), (''whisper'', JUndefined), (''data'', JObj [])])]
   \<and> distinct (map fst secret_fields) \<and> ''__proto__'' \<notin> set (map fst secret_fields)
   \<and> responses (onMessage example_env peer_c1 (JObj secret_fields)
         (createApiRoute example_env rollRoute roll_request 1 1000 1000 1000 idle_relay)) 1
       = Some \<lparr>statusCode = 200, headers = [],
               content = JsonBody (JObj [(''requestId'', JStr ''roll_1000''), (''clientId'', JStr ''c1''),
                  (''type'', JStr ''roll-result''), (''result'', JNum 17),
                  (''nested'', JArr [JObj [(''keep'', JNum 1)]])])\<rparr>"
  using clientId_read_from_route_source [where config = rollRoute and ?req0.0 = body_only_request
      and e = example_env and r = 1 and now = 1000 and stamp = 1000 and armed = 1000 and s = idle_relay and req = roll_request
      and c = "''c1''" and f = "''1d20''" and cl = peer_c1 and msg = secret_fields]
  by (simp add: plainRoll_def srcRoutes_def clientIdSource_def relay_defs example_defs
        echoedBody_def newPending_def Let_def)

text \<open>
  The claim as it was stated fails: with peer \<open>c1\<close> connected, \<open>POST /roll\<close> with the
  body \<open>{clientId: "c1", formula: "1d20"}\<close> is answered
  \<open>400 {error: "'clientId' is required"}\<close>; nothing is registered and nothing is sent
  to the peer.
\<close>

theorem clientId_in_body_counterexample:
  "clients idle_relay ''c1'' = Some peer_c1
   \<and> responses (createApiRoute example_env rollRoute body_only_request 1 1000 1000 1000 idle_relay) 1
       = Some \<lparr>statusCode = 400, headers = [],
               content = JsonBody (JObj [(''error'', JStr (quoted ''clientId'' @ '' is required''))])\<rparr>
   \<and> outbox (createApiRoute example_env rollRoute body_only_request 1 1000 1000 1000 idle_relay) = []
   \<and> pendingRequests (createApiRoute example_env rollRoute body_only_request 1 1000 1000 1000 idle_relay)
        ''roll_1000'' = None"
  by (simp add: relay_defs example_defs Let_def)

subsection \<open>Correlation IDs\<close>

text \<open>
  C5 (as amended).  The correlation ID of an accepted request is the text
  \<open>"{type}_{Date.now()}"\<close>: the request type, an underscore, and the clock's
  millisecond reading in decimal.  The waiter is stored under that key, so the keys of the
  table are pairwise different at all times (the table is a map).  Two IDs are equal
  exactly when both the type and the millisecond reading are equal: requests of
  different types, or accepted at different milliseconds, never share an ID.
\<close>

theorem requestId_of_type_and_clock:
  "(accepted e config req s ps cl x payloadSource \<longrightarrow>
      pendingRequests (createApiRoute e config req r now stamp armed s) (rtype config @ ''_'' @ show_int now)
        = Some (newPending r (rtype config) (obj_get ps ''clientId'') stamp x)
      \<and> dom (pendingRequests (createApiRoute e config req r now stamp armed s))
          = insert (rtype config @ ''_'' @ show_int now) (dom (pendingRequests s))
      \<and> timers (createApiRoute e config req r now stamp armed s)
          = timers s @ [(armed + timeoutDuration config, rtype config @ ''_'' @ show_int now, r)])
   \<and> (t \<in> set PENDING_REQUEST_TYPES \<and> t' \<in> set PENDING_REQUEST_TYPES \<longrightarrow>
        (requestIdOf t now = requestIdOf t' now') = (t = t' \<and> now = now'))
   \<and> (pendingRequests s k = Some p \<and> pendingRequests s k' = Some p' \<and> p \<noteq> p' \<longrightarrow> k \<noteq> k')"
proof -
  have "(requestIdOf t now = requestIdOf t' now') = (t = t' \<and> now = now')"
    if "t \<in> set PENDING_REQUEST_TYPES" and "t' \<in> set PENDING_REQUEST_TYPES"
    using requestIdOf_inj [OF types_plain [OF that(1)] types_plain [OF that(2)]] by auto
  then show ?thesis
    by (auto simp: createApiRoute_accepted requestIdOf_def)
qed

theorem requestId_of_type_and_clock_witness:
  "accepted example_env rollRoute roll_request idle_relay roll_params peer_c1 no_extras roll_params
   \<and> pendingRequests (createApiRoute example_env rollRoute roll_request 1 1000 1000 1000 idle_relay) ''roll_1000''
       = Some roll_waiter
   \<and> timers (createApiRoute example_env rollRoute roll_request 1 1000 1000 1000 idle_relay)
       = [(11000, ''roll_1000'', 1)]
   \<and> ''roll'' \<in> set PENDING_REQUEST_TYPES \<and> ''rolls'' \<in> set PENDING_REQUEST_TYPES
   \<and> requestIdOf ''roll'' 1000 \<noteq> requestIdOf ''rolls'' 1000"
  using requestId_of_type_and_clock [where e = example_env and config = rollRoute
      and req = roll_request and s = idle_relay and ps = roll_params and cl = peer_c1
      and x = no_extras and payloadSource = roll_params and r = 1 and now = 1000
      and stamp = 1000 and armed = 1000
      and t = "''roll''" and t' = "''rolls''" and now' = 1000]
  by (simp add: accepted_def passesValidation_def builtExtras_def builtPayload_def
        relay_defs example_defs Let_def)

text \<open>
  The claim as it was stated fails: two requests of the same type accepted in the same
  millisecond get the same ID.  Both timers are armed for \<open>roll_1000\<close>, the table holds
  one waiter only (that of response handle 2), and the first caller has no answer yet.
\<close>

theorem same_millisecond_counterexample:
  "timers (run example_env
      [HttpRequest rollRoute roll_request 1 1000 1000 1000,
       HttpRequest rollRoute roll_request 2 1000 1000 1000] idle_relay)
     = [(11000, ''roll_1000'', 1), (11000, ''roll_1000'', 2)]
   \<and> pendingRequests (run example_env
      [HttpRequest rollRoute roll_request 1 1000 1000 1000,
       HttpRequest rollRoute roll_request 2 1000 1000 1000] idle_relay)
      ''roll_1000'' = Some (roll_waiter\<lparr>res := 2\<rparr>)
   \<and> dom (pendingRequests (run example_env
      [HttpRequest rollRoute roll_request 1 1000 1000 1000,
       HttpRequest rollRoute roll_request 2 1000 1000 1000] idle_relay))
      = {''roll_1000''}
   \<and> responses (run example_env
      [HttpRequest rollRoute roll_request 1 1000 1000 1000,
       HttpRequest rollRoute roll_request 2 1000 1000 1000] idle_relay) 1
      = None"
  by (simp add: relay_defs example_defs Let_def)

subsection \<open>The periodic clean-up\<close>

lemma step_Sweep: "step e (Sweep t) s = sweep t s"
  by (simp add: step_def)

lemma run_sweeps_responses: "responses (run e (map Sweep ts) s) = responses s"
  by (induction ts arbitrary: s) (simp_all add: run_Nil run_Cons step_Sweep sweep_def)

lemma run_sweeps_frame:
  "timers (run e (map Sweep ts) s) = timers s \<and> outbox (run e (map Sweep ts) s) = outbox s"
  by (induction ts arbitrary: s) (simp_all add: run_Nil run_Cons step_Sweep sweep_def)

lemma run_sweeps_pending:
  "pendingRequests (run e (map Sweep ts) s) rid =
     (case pendingRequests s rid of
        None \<Rightarrow> None
      | Some p \<Rightarrow> if list_ex (\<lambda>t. t - timestamp p > 30000) ts then None else Some p)"
proof (induction ts arbitrary: s)
  case Nil
  then show ?case by (simp add: run_Nil split: option.splits)
next
  case (Cons t ts)
  show ?case
    by (simp add: run_Cons step_Sweep Cons.IH) (simp add: sweep_def split: option.splits)
qed

lemma sweepTimes_ex:
  "0 < n \<Longrightarrow> list_ex (\<lambda>t. t - T > 30000) (sweepTimes start n)
     = (start + SWEEP_INTERVAL * int n - T > 30000)"
proof (induction n)
  case 0
  then show ?case by simp
next
  case (Suc n)
  show ?case
  proof (cases "n = 0")
    case True
    then show ?thesis by (simp add: sweepTimes_def)
  next
    case False
    then have ih: "list_ex (\<lambda>t. t - T > 30000) (sweepTimes start n)
         = (start + SWEEP_INTERVAL * int n - T > 30000)" using Suc.IH by simp
    have split: "sweepTimes start (Suc n) = sweepTimes start n @ [start + SWEEP_INTERVAL * int (Suc n)]"
      by (simp add: sweepTimes_def)
    show ?thesis
      unfolding split using ih by (auto simp: SWEEP_INTERVAL_def list_ex_iff)
  qed
qed

text \<open>
  C6 (as amended).  The clean-up runs every 10 seconds.  It writes no response, sets no
  timer and sends nothing; it only drops waiters, and it drops a waiter once a run finds it
  older than 30 seconds (\<open>now - timestamp > 30000\<close>, whatever the route's timeout is):
  after the first \<open>n\<close> runs a waiter is gone exactly when the \<open>n\<close>-th run came more than
  30 seconds after its timestamp.  The caller of a dropped waiter receives nothing from
  the clean-up; the \<open>408\<close> is written by the request's own timer.
\<close>

theorem sweep_drops_silently:
  "responses (run e (map Sweep (sweepTimes start n)) s) = responses s
   \<and> timers (run e (map Sweep (sweepTimes start n)) s) = timers s
   \<and> outbox (run e (map Sweep (sweepTimes start n)) s) = outbox s
   \<and> (0 < n \<and> pendingRequests s rid = Some p \<longrightarrow>
        pendingRequests (run e (map Sweep (sweepTimes start n)) s) rid
          = (if start + 10000 * int n - timestamp p > 30000 then None else Some p))"
  using sweepTimes_ex [of n "timestamp p" start]
  by (simp add: run_sweeps_responses run_sweeps_frame run_sweeps_pending SWEEP_INTERVAL_def)

lemma sweepTimes_example:
  "sweepTimes 0 3 = [10000, 20000, 30000]" "sweepTimes 0 4 = [10000, 20000, 30000, 40000]"
  by code_simp+

theorem sweep_drops_silently_witness:
  "0 < (4::nat) \<and> pendingRequests slow_waiting_relay ''roll_1000'' = Some roll_waiter
   \<and> sweepTimes 0 4 = [10000, 20000, 30000, 40000]
   \<and> pendingRequests (run example_env (map Sweep (sweepTimes 0 3)) slow_waiting_relay) ''roll_1000''
       = Some roll_waiter
   \<and> pendingRequests (run example_env (map Sweep (sweepTimes 0 4)) slow_waiting_relay) ''roll_1000''
       = None
   \<and> responses (run example_env (map Sweep (sweepTimes 0 4)) slow_waiting_relay) 1 = None"
  using sweep_drops_silently [of example_env 0 4 slow_waiting_relay "''roll_1000''" roll_waiter]
    sweep_drops_silently [of example_env 0 3 slow_waiting_relay "''roll_1000''" roll_waiter]
  by (simp add: relay_defs example_defs Let_def sweepTimes_example)

text \<open>
  The claim as it was stated fails: the clean-up at time 40000 removes the waiter
  registered at time 1000, and its caller (response handle 1) has received nothing.
\<close>

theorem sweep_answers_nobody_counterexample:
  "pendingRequests slow_waiting_relay ''roll_1000'' = Some roll_waiter
   \<and> responses slow_waiting_relay 1 = None
   \<and> pendingRequests (step example_env (Sweep 40000) slow_waiting_relay) ''roll_1000'' = None
   \<and> responses (step example_env (Sweep 40000) slow_waiting_relay) 1 = None"
  by (simp add: relay_defs example_defs Let_def)

subsection \<open>A request for a client that is not connected\<close>

text \<open>
  C7 (as amended).  A request that passes the handler's parameter validation and whose
  \<open>clientId\<close> has no connected client is answered with
  \<open>404 {error: "Invalid client ID"}\<close>; the pending-request table, the timers and the
  messages sent to peers are unchanged.  In particular \<open>GET /lastroll?clientId=c\<close>
  for an unknown \<open>c\<close> does exactly that, whatever else the request holds.
\<close>

theorem unknown_client_404:
  "(passesValidation e config req ps \<and> getClient s (obj_get ps ''clientId'') = None \<longrightarrow>
      createApiRoute e config req r now stamp armed s
        = safeResponse r 404 (JObj [(''error'', JStr ''Invalid client ID'')]) s
      \<and> pendingRequests (createApiRoute e config req r now stamp armed s) = pendingRequests s
      \<and> timers (createApiRoute e config req r now stamp armed s) = timers s
      \<and> outbox (createApiRoute e config req r now stamp armed s) = outbox s
      \<and> (responses s r = None \<longrightarrow>
           responses (createApiRoute e config req r now stamp armed s) r
             = Some \<lparr>statusCode = 404, headers = [],
                     content = JsonBody (JObj [(''error'', JStr ''Invalid client ID'')])\<rparr>))
   \<and> (get_prop (query req) ''clientId'' = JStr c \<and> clients s c = None \<and> responses s r = None \<longrightarrow>
        createApiRoute e lastRollRoute req r now stamp armed s
          = s\<lparr>responses := (responses s)(r \<mapsto> \<lparr>statusCode = 404, headers = [],
                     content = JsonBody (JObj [(''error'', JStr ''Invalid client ID'')])\<rparr>)\<rparr>)"
proof -
  have general: "createApiRoute e config req r now stamp armed s
        = safeResponse r 404 (JObj [(''error'', JStr ''Invalid client ID'')]) s"
    if "passesValidation e config req ps" and "getClient s (obj_get ps ''clientId'') = None"
    using that by (simp add: createApiRoute_def passesValidation_def Let_def)
  have written: "responses s r = None \<Longrightarrow>
      responses (safeResponse r 404 (JObj [(''error'', JStr ''Invalid client ID'')]) s) r
             = Some \<lparr>statusCode = 404, headers = [],
                     content = JsonBody (JObj [(''error'', JStr ''Invalid client ID'')])\<rparr>"
    by (simp add: safeResponse_def sanitizeResponse_def sensitive_def)
  have lastroll: "createApiRoute e lastRollRoute req r now stamp armed s
          = s\<lparr>responses := (responses s)(r \<mapsto> \<lparr>statusCode = 404, headers = [],
                     content = JsonBody (JObj [(''error'', JStr ''Invalid client ID'')])\<rparr>)\<rparr>"
    if "get_prop (query req) ''clientId'' = JStr c" and "clients s c = None" and "responses s r = None"
    using that
    by (simp add: createApiRoute_def lastRollRoute_def extractParams_def req_source_def coerce_def
          obj_get_def validationResult_def getClient_def safeResponse_def sanitizeResponse_def
          sensitive_def Let_def)
  show ?thesis using general written lastroll by simp
qed

theorem unknown_client_404_witness:
  "passesValidation example_env lastRollRoute unknown_client_request [(''clientId'', JStr ''cZ'')]
   \<and> getClient idle_relay (obj_get [(''clientId'', JStr ''cZ'')] ''clientId'') = None
   \<and> get_prop (query unknown_client_request) ''clientId'' = JStr ''cZ''
   \<and> clients idle_relay ''cZ'' = None \<and> responses idle_relay 1 = None
   \<and> responses (createApiRoute example_env lastRollRoute unknown_client_request 1 1000 1000 1000 idle_relay) 1
       = Some \<lparr>statusCode = 404, headers = [],
               content = JsonBody (JObj [(''error'', JStr ''Invalid client ID'')])\<rparr>
   \<and> pendingRequests (createApiRoute example_env lastRollRoute unknown_client_request 1 1000 1000 1000 idle_relay)
       = pendingRequests idle_relay"
  using unknown_client_404 [where e = example_env and config = lastRollRoute
      and req = unknown_client_request and ps = "[(''clientId'', JStr ''cZ'')]" and s = idle_relay
      and r = 1 and now = 1000 and stamp = 1000 and armed = 1000 and c = "''cZ''"]
  by (simp add: passesValidation_def relay_defs example_defs Let_def)

text \<open>
  The claim as it was stated fails: no client \<open>cZ\<close> is connected, yet
  \<open>POST /roll?clientId=cZ\<close> without a \<open>formula\<close> is answered with 400, because the
  parameters are validated before the client is looked up.
\<close>

theorem validation_precedes_lookup_counterexample:
  "getClient idle_relay (get_prop (query incomplete_request) ''clientId'') = None
   \<and> responses (createApiRoute example_env rollRoute incomplete_request 1 1000 1000 1000 idle_relay) 1
       = Some \<lparr>statusCode = 400, headers = [],
               content = JsonBody (JObj [(''error'', JStr (quoted ''formula'' @ '' is required''))])\<rparr>"
  by (simp add: relay_defs example_defs Let_def)

subsection \<open>The result of a file download\<close>

lemma splitOn_plain: "c \<notin> set p \<Longrightarrow> splitOn c p = [p]"
  by (induction p) auto

lemma splitOn_once: "c \<notin> set h \<Longrightarrow> c \<notin> set p \<Longrightarrow> splitOn c (h @ c # p) = [h, p]"
  by (induction h) (auto simp: splitOn_plain)

lemma base64Part_dataUrl:
  "CHR '','' \<notin> set header \<Longrightarrow> CHR '','' \<notin> set payload
     \<Longrightarrow> base64Part (JStr (header @ '','' @ payload)) = Some payload"
  using splitOn_once [of "CHR '',''" header payload] by (simp add: base64Part_def)

lemma dispatch_download:
  "map_of messageHandlers ''download-file-result'' = Some DownloadFileResultHandler"
  by (simp add: messageHandlers_def PENDING_REQUEST_TYPES_def
        REQUEST_TYPES_WITH_SPECIAL_RESPONSE_HANDLERS_def)

text \<open>
  C9 (as amended).  For a \<open>download-file-result\<close> without a truthy \<open>error\<close> that
  names a registered waiter whose response is unsent and whose \<open>fileData\<close> is a data
  URL (a header, a comma, the base64 text): when the waiter's \<open>format\<close> is absent or
  empty (binary is the default), \<open>binary\<close> or \<open>raw\<close>, and the reported \<open>mimeType\<close>
  and filename hold only characters that a header value may hold, the relay strips the
  header, decodes the base64 text and writes status 200 with \<open>Content-Type\<close> the reported
  \<open>mimeType\<close> (\<open>application/octet-stream\<close> when none is reported),
  \<open>Content-Disposition\<close> \<open>attachment\<close> with the reported filename, \<open>Content-Length\<close>
  the number of decoded bytes, and exactly the decoded bytes as the body; for any other
  format it answers 200 with a JSON body that holds the data URL intact.  Either way
  the waiter is removed.
\<close>

theorem download_file_result_shapes:
  assumes "get_prop data ''type'' = JStr ''download-file-result''"
    and "get_prop data ''requestId'' = JStr rid" and "rid \<noteq> []"
    and "pendingRequests s rid = Some request" and "responses s (res request) = None"
    and "\<not> truthy (get_prop data ''error'')"
    and "get_prop data ''fileData'' = JStr (header @ '','' @ payload)"
    and "CHR '','' \<notin> set header" and "CHR '','' \<notin> set payload"
    and "binaryFormat (format request) \<Longrightarrow>
           validHeaderValue (js_or (get_prop data ''mimeType'') (JStr ''application/octet-stream''))
           \<and> validHeaderValue (JStr (''attachment; filename='' @ [CHR 0x22]
                                      @ js_String (get_prop data ''filename'') @ [CHR 0x22]))"
  shows "onMessage e cl data s =
           (if binaryFormat (format request) then
              s\<lparr>pendingRequests := (pendingRequests s)(rid := None),
                responses := (responses s)(res request \<mapsto>
                  \<lparr>statusCode = 200,
                   headers =
                     [(''Content-Type'', js_or (get_prop data ''mimeType'') (JStr ''application/octet-stream'')),
                      (''Content-Disposition'',
                         JStr (''attachment; filename='' @ [CHR 0x22]
                               @ js_String (get_prop data ''filename'') @ [CHR 0x22])),
                      (''Content-Length'', JNum (int (length (base64Decode e payload))))],
                   content = BytesBody (base64Decode e payload)\<rparr>)\<rparr>
            else
              s\<lparr>pendingRequests := (pendingRequests s)(rid := None),
                responses := (responses s)(res request \<mapsto>
                  \<lparr>statusCode = 200, headers = [],
                   content = JsonBody (sanitizeResponse (JObj
                     [(''clientId'', JStr (getId cl)), (''requestId'', JStr rid),
                      (''success'', JBool True),
                      (''path'', get_prop data ''path''),
                      (''filename'', get_prop data ''filename''),
                      (''mimeType'', get_prop data ''mimeType''),
                      (''fileData'', JStr (header @ '','' @ payload)),
                      (''size'', JNum (int (length (base64Decode e payload))))]))\<rparr>)\<rparr>)
         \<and> at_path (sanitizeResponse (JObj
                     [(''clientId'', JStr (getId cl)), (''requestId'', JStr rid),
                      (''success'', JBool True),
                      (''path'', get_prop data ''path''),
                      (''filename'', get_prop data ''filename''),
                      (''mimeType'', get_prop data ''mimeType''),
                      (''fileData'', JStr (header @ '','' @ payload)),
                      (''size'', JNum (int (length (base64Decode e payload))))])) [Key ''fileData'']
             = Some (JStr (header @ '','' @ payload))"
proof -
  have "onMessage e cl data s = onDownloadFileResult e cl data s"
    using assms(1) by (simp add: onMessage_def dispatch_download runHandler_def)
  moreover have "base64Part (get_prop data ''fileData'') = Some payload"
    using base64Part_dataUrl [OF assms(8,9)] assms(7) by simp
  ultimately show ?thesis
    using assms(2-7,10)
    by (auto simp: onDownloadFileResult_def Let_def binaryFormat_def safeResponse_def
          sanitizeResponse_def sensitive_def split: option.splits)
qed

theorem download_file_result_shapes_witness:
  "get_prop file_result ''type'' = JStr ''download-file-result''
   \<and> get_prop file_result ''requestId'' = JStr ''download-file_1000''
   \<and> pendingRequests (download_waiting (Some ''binary'')) ''download-file_1000''
       = Some (download_waiter (Some ''binary''))
   \<and> responses (download_waiting (Some ''binary'')) 1 = None
   \<and> \<not> truthy (get_prop file_result ''error'')
   \<and> get_prop file_result ''fileData'' = JStr (''data:image/png;base64'' @ '','' @ ''iVBORw0KGgo='')
   \<and> CHR '','' \<notin> set ''data:image/png;base64'' \<and> CHR '','' \<notin> set ''iVBORw0KGgo=''
   \<and> validHeaderValue (js_or (get_prop file_result ''mimeType'') (JStr ''application/octet-stream''))
   \<and> validHeaderValue (JStr (''attachment; filename='' @ [CHR 0x22]
                              @ js_String (get_prop file_result ''filename'') @ [CHR 0x22]))
   \<and> responses (onMessage example_env peer_c1 file_result (download_waiting (Some ''binary''))) 1
       = Some \<lparr>statusCode = 200,
               headers = [(''Content-Type'', JStr ''image/png''),
                          (''Content-Disposition'',
                             JStr (''attachment; filename='' @ [CHR 0x22] @ ''x.png'' @ [CHR 0x22])),
                          (''Content-Length'', JNum 8)],
               content = BytesBody [137, 80, 78, 71, 13, 10, 26, 10]\<rparr>
   \<and> responses (onMessage example_env peer_c1 file_result (download_waiting (Some ''json''))) 1
       = Some \<lparr>statusCode = 200, headers = [],
               content = JsonBody (JObj
                 [(''clientId'', JStr ''c1''), (''requestId'', JStr ''download-file_1000''),
                  (''success'', JBool True), (''path'', JStr ''assets/x.png''),
                  (''filename'', JStr ''x.png''), (''mimeType'', JStr ''image/png''),
                  (''fileData'', JStr ''data:image/png;base64,iVBORw0KGgo=''),
                  (''size'', JNum 8)])\<rparr>"
  using download_file_result_shapes [where data = file_result and rid = "''download-file_1000''"
      and s = "download_waiting (Some ''binary'')" and request = "download_waiter (Some ''binary'')"
      and header = "''data:image/png;base64''" and payload = "''iVBORw0KGgo=''"
      and e = example_env and cl = peer_c1]
    download_file_result_shapes [where data = file_result and rid = "''download-file_1000''"
      and s = "download_waiting (Some ''json'')" and request = "download_waiter (Some ''json'')"
      and header = "''data:image/png;base64''" and payload = "''iVBORw0KGgo=''"
      and e = example_env and cl = peer_c1]
  by (simp add: relay_defs example_defs binaryFormat_def Let_def)

text \<open>
  The claim as it was stated fails: the waiter's format is neither \<open>binary\<close> nor
  \<open>raw\<close> (the caller gave none), and the relay answers with the decoded bytes, not
  with JSON.
\<close>

theorem absent_format_is_binary_counterexample:
  "format (download_waiter None) = None
   \<and> pendingRequests (download_waiting None) ''download-file_1000'' = Some (download_waiter None)
   \<and> responses (onMessage example_env peer_c1 file_result (download_waiting None)) 1
       = Some \<lparr>statusCode = 200,
               headers = [(''Content-Type'', JStr ''image/png''),
                          (''Content-Disposition'',
                             JStr (''attachment; filename='' @ [CHR 0x22] @ ''x.png'' @ [CHR 0x22])),
                          (''Content-Length'', JNum 8)],
               content = BytesBody [137, 80, 78, 71, 13, 10, 26, 10]\<rparr>"
  by (simp add: relay_defs example_defs Let_def)

subsection \<open>The peer module's stored lists\<close>

































subsection \<open>What a response body may hold\<close>

lemma docs_written:
  "responses s r = None \<Longrightarrow>
     responses (step e (OtherRequest (ApiDocs (Some (JObj kvs)) protocol host) r) s) r
       = Some \<lparr>statusCode = 200, headers = [],
               content = JsonBody (JObj (obj_set kvs ''baseUrl'' (JStr (protocol @ ''://'' @ js_String host))))\<rparr>"
  by (simp add: step_def otherEndpoint_def docsBody_def baseUrl_def responses_jsonResponse)

lemma health_written:
  "responses s r = None \<Longrightarrow>
     responses (step e (OtherRequest (ApiHealth (Some h) now instanceId) r) s) r
       = Some \<lparr>statusCode = 200, headers = [], content = JsonBody h\<rparr>"
  by (simp add: step_def otherEndpoint_def responses_jsonResponse)

text \<open>
  C8 (as amended).  Every JSON body that goes through \<open>safeResponse\<close> is written
  sanitised: on a response that is not yet sent, \<open>safeResponse\<close> writes the sanitised
  data, which holds none of the keys \<open>privateKey\<close>, \<open>apiKey\<close>, \<open>password\<close> at any
  depth; and for data without a key \<open>__proto__\<close> sanitising keeps everything else: the
  value at a path of keys and indices that names no sensitive key is the sanitised
  original value at that path, and a path through a sensitive key leads nowhere.
  Whatever sequence of events the relay goes through, a response has a clean body (no
  sensitive key at any depth; the HTML document of a sheet and the bytes of a download
  are no JSON values and have no keys) unless it was written by one of the endpoints
  that call \<open>res.json\<close> themselves.  Those write their data as it is:
  \<open>GET /api/docs\<close> the parsed documentation file with its \<open>baseUrl\<close>,
  \<open>GET /api/health\<close> the health report.
\<close>

theorem response_bodies_sanitized:
  "(list_all (\<lambda>ev. \<not> unsanitised r ev) evs \<and> responses s r = None
      \<and> responses (run e evs s) r = Some resp \<longrightarrow> clean_body (content resp))
   \<and> (responses s r = None \<longrightarrow>
        responses (safeResponse r code d s) r
          = Some \<lparr>statusCode = code, headers = [], content = JsonBody (sanitizeResponse d)\<rparr>)
   \<and> \<not> has_sensitive (sanitizeResponse d)
   \<and> (no_proto d \<longrightarrow>
        at_path (sanitizeResponse d) p
          = (if sensitive_path p then None else map_option sanitizeResponse (at_path d p)))
   \<and> (responses s r = None \<longrightarrow>
        responses (step e (OtherRequest (ApiDocs (Some (JObj kvs)) protocol host) r) s) r
          = Some \<lparr>statusCode = 200, headers = [],
                  content = JsonBody (JObj (obj_set kvs ''baseUrl''
                              (JStr (protocol @ ''://'' @ js_String host))))\<rparr>
        \<and> responses (step e (OtherRequest (ApiHealth (Some h) now instanceId) r) s) r
          = Some \<lparr>statusCode = 200, headers = [], content = JsonBody h\<rparr>)"
proof -
  have "clean_body (content resp)"
    if "list_all (\<lambda>ev. \<not> unsanitised r ev) evs" and "responses s r = None"
      and "responses (run e evs s) r = Some resp"
    using growsAt_run [OF that(1), of s e] that(2,3) by (simp add: growsAt_def)
  moreover have "at_path (sanitizeResponse d) p
         = (if sensitive_path p then None else map_option sanitizeResponse (at_path d p))"
    if "no_proto d"
    using at_path_removeSensitiveKeys [OF that, of p] sanitizeResponse_eq
    by (metis (no_types, lifting) map_option_cong)
  ultimately show ?thesis
    by (simp add: responses_safeResponse sanitizeResponse_clean docs_written health_written)
qed

theorem response_bodies_sanitized_witness:
  "list_all (\<lambda>ev. \<not> unsanitised 1 ev)
     [HttpRequest rollRoute roll_request 1 1000 1000 1000, OtherRequest ApiStatus 2,
      PeerMessage peer_c1 secret_result]
   \<and> responses idle_relay 1 = None
   \<and> responses (run example_env
        [HttpRequest rollRoute roll_request 1 1000 1000 1000, OtherRequest ApiStatus 2,
         PeerMessage peer_c1 secret_result] idle_relay) 1
       = Some \<lparr>statusCode = 200, headers = [],
               content = JsonBody (JObj [(''requestId'', JStr ''roll_1000''), (''clientId'', JStr ''c1''),
                  (''type'', JStr ''roll-result''), (''result'', JNum 17),
                  (''nested'', JArr [JObj [(''keep'', JNum 1)]])])\<rparr>
   \<and> clean_body (JsonBody (JObj [(''requestId'', JStr ''roll_1000''), (''clientId'', JStr ''c1''),
                  (''type'', JStr ''roll-result''), (''result'', JNum 17),
                  (''nested'', JArr [JObj [(''keep'', JNum 1)]])]))
   \<and> no_proto secret_result
   \<and> at_path (sanitizeResponse secret_result) [Key ''nested'', Index 0, Key ''keep'']
       = map_option sanitizeResponse (at_path secret_result [Key ''nested'', Index 0, Key ''keep''])
   \<and> at_path (sanitizeResponse secret_result) [Key ''nested'', Index 0, Key ''password''] = None
   \<and> responses (step example_env
          (OtherRequest (ApiDocs (Some (JObj [(''title'', JStr ''Relay'')])) ''https'' (JStr ''relay.example'')) 1)
          idle_relay) 1
       = Some \<lparr>statusCode = 200, headers = [],
               content = JsonBody (JObj [(''title'', JStr ''Relay''),
                            (''baseUrl'', JStr ''https://relay.example'')])\<rparr>"
  using response_bodies_sanitized [where s = idle_relay and r = 1 and e = example_env
      and evs = "[HttpRequest rollRoute roll_request 1 1000 1000 1000, OtherRequest ApiStatus 2,
                  PeerMessage peer_c1 secret_result]"
      and resp = "\<lparr>statusCode = 200, headers = [],
               content = JsonBody (JObj [(''requestId'', JStr ''roll_1000''), (''clientId'', JStr ''c1''),
                  (''type'', JStr ''roll-result''), (''result'', JNum 17),
                  (''nested'', JArr [JObj [(''keep'', JNum 1)]])])\<rparr>"
      and code = 200 and d = secret_result and p = "[Key ''nested'', Index 0, Key ''keep'']"
      and kvs = "[(''title'', JStr ''Relay'')]" and protocol = "''https''"
      and host = "JStr ''relay.example''" and h = JNull and now = 0 and instanceId = "''local''"]
  by (simp add: relay_defs example_defs Let_def)

text \<open>
  The claim as it was stated fails for the endpoints that write with \<open>res.json\<close>
  themselves: \<open>GET /api/docs\<close> answers with the documentation file as it was parsed,
  and an \<open>apiKey\<close> key in it reaches the caller.
\<close>

theorem docs_body_unsanitised_counterexample:
  "responses (step example_env
      (OtherRequest
         (ApiDocs (Some (JObj [(''endpoints'', JArr [JObj [(''apiKey'', JStr ''your-api-key'')]])]))
            ''https'' (JStr ''relay.example'')) 1)
      idle_relay) 1
     = Some \<lparr>statusCode = 200, headers = [],
             content = JsonBody (JObj [(''endpoints'', JArr [JObj [(''apiKey'', JStr ''your-api-key'')]]),
                          (''baseUrl'', JStr ''https://relay.example'')])\<rparr>
   \<and> has_sensitive (JObj [(''endpoints'', JArr [JObj [(''apiKey'', JStr ''your-api-key'')]]),
                          (''baseUrl'', JStr ''https://relay.example'')])"
  by (simp add: relay_defs example_defs Let_def)

end
